theory Spec2Isabelle
  imports Main
begin

section \<open>Go values as the binding layer sees them\<close>

text \<open>
  The binding layer of \<^verbatim>\<open>jsapi.go\<close> works on Go values through package
  \<^verbatim>\<open>reflect\<close>. A \<^verbatim>\<open>reflect.Kind\<close> is the enumeration below, in the order of the
  Go declaration; \<open>kind_name\<close> is its \<^verbatim>\<open>String\<close> method, which \<^verbatim>\<open>%s\<close> prints.
\<close>

datatype kind =
    KInvalid | KBool | KInt | KInt8 | KInt16 | KInt32 | KInt64
  | KUint | KUint8 | KUint16 | KUint32 | KUint64 | KUintptr
  | KFloat32 | KFloat64 | KComplex64 | KComplex128
  | KArray | KChan | KFunc | KInterface | KMap | KPtr | KSlice | KString | KStruct
  | KUnsafePointer

fun kind_name :: "kind \<Rightarrow> string" where
  "kind_name KInvalid = ''invalid''"
| "kind_name KBool = ''bool''"
| "kind_name KInt = ''int''"
| "kind_name KInt8 = ''int8''"
| "kind_name KInt16 = ''int16''"
| "kind_name KInt32 = ''int32''"
| "kind_name KInt64 = ''int64''"
| "kind_name KUint = ''uint''"
| "kind_name KUint8 = ''uint8''"
| "kind_name KUint16 = ''uint16''"
| "kind_name KUint32 = ''uint32''"
| "kind_name KUint64 = ''uint64''"
| "kind_name KUintptr = ''uintptr''"
| "kind_name KFloat32 = ''float32''"
| "kind_name KFloat64 = ''float64''"
| "kind_name KComplex64 = ''complex64''"
| "kind_name KComplex128 = ''complex128''"
| "kind_name KArray = ''array''"
| "kind_name KChan = ''chan''"
| "kind_name KFunc = ''func''"
| "kind_name KInterface = ''interface''"
| "kind_name KMap = ''map''"
| "kind_name KPtr = ''ptr''"
| "kind_name KSlice = ''slice''"
| "kind_name KString = ''string''"
| "kind_name KStruct = ''struct''"
| "kind_name KUnsafePointer = ''unsafe.Pointer''"

text \<open>
  A \<^verbatim>\<open>reflect.Type\<close>: the predeclared types by their kind, and the composite types
  with the parts the code asks for (\<^verbatim>\<open>NumIn\<close>, \<^verbatim>\<open>In\<close>, \<^verbatim>\<open>IsVariadic\<close>, \<^verbatim>\<open>Elem\<close>,
  \<^verbatim>\<open>NumField\<close>, \<^verbatim>\<open>Field\<close>). \<open>InterfaceT\<close> is \<^verbatim>\<open>interface{}\<close>. Type names are not
  modelled: which types are assignable or convertible to which is a parameter below.
\<close>

datatype prim =
    PBool | PInt | PInt8 | PInt16 | PInt32 | PInt64
  | PUint | PUint8 | PUint16 | PUint32 | PUint64 | PUintptr
  | PFloat32 | PFloat64 | PComplex64 | PComplex128 | PString | PUnsafePointer

fun prim_kind :: "prim \<Rightarrow> kind" where
  "prim_kind PBool = KBool"
| "prim_kind PInt = KInt"
| "prim_kind PInt8 = KInt8"
| "prim_kind PInt16 = KInt16"
| "prim_kind PInt32 = KInt32"
| "prim_kind PInt64 = KInt64"
| "prim_kind PUint = KUint"
| "prim_kind PUint8 = KUint8"
| "prim_kind PUint16 = KUint16"
| "prim_kind PUint32 = KUint32"
| "prim_kind PUint64 = KUint64"
| "prim_kind PUintptr = KUintptr"
| "prim_kind PFloat32 = KFloat32"
| "prim_kind PFloat64 = KFloat64"
| "prim_kind PComplex64 = KComplex64"
| "prim_kind PComplex128 = KComplex128"
| "prim_kind PString = KString"
| "prim_kind PUnsafePointer = KUnsafePointer"

datatype rtype =
    Prim prim
  | ArrayOf nat rtype
  | ChanOf rtype
  | FuncOf "rtype list" bool "rtype list"
  | InterfaceT
  | MapOf rtype rtype
  | PtrTo rtype
  | SliceOf rtype
  | StructOf "(string \<times> rtype) list"

fun Kind :: "rtype \<Rightarrow> kind" where
  "Kind (Prim p) = prim_kind p"
| "Kind (ArrayOf n e) = KArray"
| "Kind (ChanOf e) = KChan"
| "Kind (FuncOf ps variadic rs) = KFunc"
| "Kind InterfaceT = KInterface"
| "Kind (MapOf k e) = KMap"
| "Kind (PtrTo e) = KPtr"
| "Kind (SliceOf e) = KSlice"
| "Kind (StructOf fs) = KStruct"

text \<open>
  A \<^verbatim>\<open>reflect.Value\<close> is the zero Value (what \<^verbatim>\<open>reflect.ValueOf(nil)\<close> returns: JSON's
  \<^verbatim>\<open>null\<close> decodes to a nil \<^verbatim>\<open>interface{}\<close>) or a type with its data. Numbers carry an
  integer; no property below depends on a fraction. A pointer holds the Value it points
  to, \<open>Zero\<close> for a nil pointer; a func holds the number of a host closure, whose body
  is given by the host further down.
\<close>

datatype rvalue = Zero | Val rtype data
and data =
    DBool bool
  | DNum int
  | DStr string
  | DSeq "rvalue list"
  | DMap "(string \<times> rvalue) list"
  | DPtr rvalue
  | DStruct "rvalue list"
  | DIface rvalue
  | DFunc nat

text \<open>
  A Go call returns or panics. \<open>Raise\<close> carries what \<^verbatim>\<open>recover\<close> returns for the
  panic: its payload as \<^verbatim>\<open>%v\<close> prints it, or \<open>None\<close> when \<^verbatim>\<open>recover\<close> returns nil,
  as it does for \<^verbatim>\<open>panic(nil)\<close> in Go before 1.21 and in a later Go that builds a module
  older than that. Every panic of the library and of this file has a payload.
\<close>

datatype 'a res = Raise "string option" | Ret 'a

abbreviation Panic :: "string \<Rightarrow> 'a res" where
  "Panic m \<equiv> Raise (Some m)"

abbreviation PanicNil :: "'a res" where
  "PanicNil \<equiv> Raise None"

record ErrorReport =
  Filename :: string
  Line :: nat
  Message :: string

text \<open>
  A non-nil value of Go's interface type \<^verbatim>\<open>error\<close>; the nil interface is \<open>None\<close> of
  \<open>go_error option\<close>. \<open>ReportPtr\<close> is a \<^verbatim>\<open>*ErrorReport\<close> stored in the interface, and
  the pointer itself may be nil (\<open>ReportPtr None\<close>): in Go an interface that holds a nil
  pointer is not the nil interface. \<open>Errorf\<close> is what \<^verbatim>\<open>fmt.Errorf\<close> returns, \<open>LibErr\<close>
  an error of \<^verbatim>\<open>encoding/json\<close>, \<^verbatim>\<open>io\<close> or \<^verbatim>\<open>os\<close>.
\<close>

datatype go_error = Errorf string | ReportPtr "ErrorReport option" | LibErr string

text \<open>\<^verbatim>\<open>%d\<close> of a non-negative integer.\<close>

definition digit :: "nat \<Rightarrow> char" where
  "digit n = ''0123456789'' ! (n mod 10)"

fun decimal :: "nat \<Rightarrow> string" where
  "decimal n = (if n < 10 then [digit n] else decimal (n div 10) @ [digit n])"

declare decimal.simps [simp del]

text \<open>
  The library under the code: the type relations and the conversion of \<^verbatim>\<open>reflect\<close>, the
  \<^verbatim>\<open>String\<close> method of types, \<^verbatim>\<open>json.Unmarshal\<close> into a \<^verbatim>\<open>[]interface{}\<close> and into an
  \<^verbatim>\<open>interface{}\<close> (both already seen through \<^verbatim>\<open>reflect.ValueOf\<close>), \<^verbatim>\<open>json.Marshal\<close>
  of one value (the pair of \<^verbatim>\<open>string(b)\<close> and \<^verbatim>\<open>err\<close>), and whether a field
  name is exported (its first letter is an upper-case letter of Unicode). \<^verbatim>\<open>Convert\<close>
  may panic although \<^verbatim>\<open>ConvertibleTo\<close> holds: since Go 1.17 a slice is convertible to
  a pointer to an array, since Go 1.20 to an array, and the conversion panics when the
  slice is shorter than the array. Every definition below takes the library as the
  parameter \<open>L\<close>, and every theorem holds for each such library.
\<close>

record golib =
  AssignableTo :: "rtype \<Rightarrow> rtype \<Rightarrow> bool"
  ConvertibleTo :: "rtype \<Rightarrow> rtype \<Rightarrow> bool"
  Convert :: "rvalue \<Rightarrow> rtype \<Rightarrow> rvalue res"
  TypeString :: "rtype \<Rightarrow> string"
  Unmarshal_args :: "string \<Rightarrow> go_error + rvalue list"
  Unmarshal_any :: "string \<Rightarrow> go_error + rvalue"
  Marshal :: "rvalue \<Rightarrow> string \<times> go_error option"
  IsExported :: "string \<Rightarrow> bool"

section \<open>The value caster\<close>

definition Type_of :: "rvalue \<Rightarrow> rtype res" where
  \<comment> \<open>\<^verbatim>\<open>v.Type()\<close>, which panics on the zero Value\<close>
  "Type_of x = (case x of
       Zero \<Rightarrow> Panic ''reflect: call of reflect.Value.Type on zero Value''
     | Val ty d \<Rightarrow> Ret ty)"

definition Indirect :: "rvalue \<Rightarrow> rvalue" where
  \<comment> \<open>\<^verbatim>\<open>reflect.Indirect\<close>: the pointee of a pointer (the zero Value for a nil pointer),
      any other value unchanged\<close>
  "Indirect x = (case x of
       Val (PtrTo e) (DPtr y) \<Rightarrow> y
     | Val (PtrTo e) d \<Rightarrow> Zero
     | _ \<Rightarrow> x)"

definition cast :: "golib \<Rightarrow> rvalue \<Rightarrow> rtype \<Rightarrow> (rvalue \<times> go_error option) res" where
  "cast L x ty =
     (case Type_of x of
        Raise pv \<Rightarrow> Raise pv
      | Ret xt \<Rightarrow>
          let y = (if Kind xt = KPtr \<and> Kind ty \<noteq> KPtr then Indirect x else x) in
          (case Type_of y of
             Raise pv \<Rightarrow> Raise pv
           | Ret yt \<Rightarrow>
               if \<not> AssignableTo L yt ty then
                 if \<not> ConvertibleTo L yt ty then
                   Ret (y, Some (Errorf (''cannot cast '' @ kind_name (Kind yt)
                                         @ '' to '' @ kind_name (Kind ty))))
                 else (case Convert L y ty of
                         Raise pv \<Rightarrow> Raise pv
                       | Ret z \<Rightarrow> Ret (z, None))
               else Ret (y, None)))"

section \<open>Function bindings\<close>

text \<open>
  \<^verbatim>\<open>type Func struct { Name string; v reflect.Value; t reflect.Type }\<close>. The fields
  \<^verbatim>\<open>v\<close> and \<^verbatim>\<open>t\<close> are \<open>fn_v\<close> and \<open>fn_t\<close> here.
\<close>

record Func =
  Name :: string
  fn_v :: rvalue
  fn_t :: rtype

fun acceptable :: "kind \<Rightarrow> bool" where
  \<comment> \<open>the \<^verbatim>\<open>case\<close> list of the switch in \<^verbatim>\<open>NewFunc\<close>\<close>
  "acceptable KBool = True"
| "acceptable KInt = True"
| "acceptable KInt8 = True"
| "acceptable KInt16 = True"
| "acceptable KInt32 = True"
| "acceptable KInt64 = True"
| "acceptable KUint = True"
| "acceptable KUint8 = True"
| "acceptable KUint16 = True"
| "acceptable KUint32 = True"
| "acceptable KUint64 = True"
| "acceptable KFloat32 = True"
| "acceptable KFloat64 = True"
| "acceptable KInterface = True"
| "acceptable KMap = True"
| "acceptable KSlice = True"
| "acceptable KString = True"
| "acceptable _ = False"

fun check_inargs :: "rtype list \<Rightarrow> unit res" where
  \<comment> \<open>the loop of \<^verbatim>\<open>NewFunc\<close> over \<^verbatim>\<open>f.t.In(i)\<close>\<close>
  "check_inargs [] = Ret ()"
| "check_inargs (p # ps) =
     (if acceptable (Kind p) then check_inargs ps
      else Panic ''X is not a valid argument type for javascript interop'')"

definition NewFunc :: "rvalue \<Rightarrow> Func res" where
  "NewFunc fun =
     (case fun of
        Zero \<Rightarrow> Panic ''invalid function type''
      | Val ty d \<Rightarrow>
          (case ty of
             FuncOf ps variadic rs \<Rightarrow>
               (case check_inargs ps of
                  Raise pv \<Rightarrow> Raise pv
                | Ret u \<Rightarrow> Ret \<lparr>Name = ''[anon]'', fn_v = fun, fn_t = ty\<rparr>)
           | _ \<Rightarrow> Panic ''X is not a valid function type''))"

definition arg_type :: "rtype list \<Rightarrow> bool \<Rightarrow> nat \<Rightarrow> rtype res" where
  \<comment> \<open>the type argument \<open>i\<close> is cast to: \<^verbatim>\<open>f.t.In(f.t.NumIn()-1).Elem()\<close> in the variadic
      tail, \<^verbatim>\<open>f.t.In(i)\<close> before it\<close>
  "arg_type ps variadic i =
     (if variadic \<and> i + 1 \<ge> length ps then
        (case ps of
           [] \<Rightarrow> Panic ''reflect: Func index out of bounds''
         | _ \<Rightarrow> (case last ps of
                   SliceOf e \<Rightarrow> Ret e
                 | _ \<Rightarrow> Panic ''reflect: Elem of invalid type''))
      else if i < length ps then Ret (ps ! i)
      else Panic ''reflect: Func index out of bounds'')"

fun cast_args ::
  "golib \<Rightarrow> rtype list \<Rightarrow> bool \<Rightarrow> nat \<Rightarrow> rvalue list \<Rightarrow> (go_error + rvalue list) res" where
  \<comment> \<open>the loop of \<^verbatim>\<open>call\<close> over \<^verbatim>\<open>inargs\<close>, from index \<open>i\<close> on: \<open>Inl\<close> is the
      \<^verbatim>\<open>return\<close> at the first failing cast, \<open>Inr\<close> the filled \<^verbatim>\<open>invals\<close>\<close>
  "cast_args L ps variadic i [] = Ret (Inr [])"
| "cast_args L ps variadic i (a # as) =
     (case arg_type ps variadic i of
        Raise pv \<Rightarrow> Raise pv
      | Ret ty \<Rightarrow>
          (case cast L a ty of
             Raise pv \<Rightarrow> Raise pv
           | Ret (x, Some e) \<Rightarrow> Ret (Inl e)
           | Ret (x, None) \<Rightarrow>
               (case cast_args L ps variadic (Suc i) as of
                  Raise pv \<Rightarrow> Raise pv
                | Ret (Inl e) \<Rightarrow> Ret (Inl e)
                | Ret (Inr xs) \<Rightarrow> Ret (Inr (x # xs)))))"

fun join :: "string \<Rightarrow> string list \<Rightarrow> string" where
  "join sep [] = []"
| "join sep [s] = s"
| "join sep (s # ss) = s @ sep @ join sep ss"

fun marshal_each :: "golib \<Rightarrow> rvalue list \<Rightarrow> go_error + string list" where
  "marshal_each L [] = Inr []"
| "marshal_each L (x # xs) =
     (case Marshal L x of
        (s, Some e) \<Rightarrow> Inl e
      | (s, None) \<Rightarrow>
          (case marshal_each L xs of Inl e \<Rightarrow> Inl e | Inr ss \<Rightarrow> Inr (s # ss)))"

definition Marshal_slice :: "golib \<Rightarrow> rvalue list \<Rightarrow> string \<times> go_error option" where
  \<comment> \<open>\<^verbatim>\<open>json.Marshal\<close> of a non-nil \<^verbatim>\<open>[]interface{}\<close>: a JSON array of the elements'
      encodings, or the first element's error with no bytes\<close>
  "Marshal_slice L xs =
     (case marshal_each L xs of
        Inl e \<Rightarrow> ('''', Some e)
      | Inr ss \<Rightarrow> (''['' @ join '','' ss @ '']'', None))"

definition encode_results :: "golib \<Rightarrow> rvalue list \<Rightarrow> string \<times> go_error option" where
  \<comment> \<open>the \<^verbatim>\<open>switch len(outvals)\<close> of \<^verbatim>\<open>call\<close>\<close>
  "encode_results L outvals =
     (case outvals of
        [] \<Rightarrow> ('''', None)
      | [r] \<Rightarrow> Marshal L r
      | _ \<Rightarrow> Marshal_slice L outvals)"

section \<open>Property proxies\<close>

text \<open>
  \<^verbatim>\<open>type prop struct { name string; v reflect.Value; t reflect.Type }\<close>, here the
  record \<open>fieldprop\<close>. The Value
  \<^verbatim>\<open>v\<close> stands for one field of the proxied struct: \<open>p_v\<close> is what the field holds,
  \<open>p_addressable\<close> and \<open>p_exported\<close> are the two flags of the Value that
  \<^verbatim>\<open>CanSet\<close> and \<^verbatim>\<open>Interface\<close> read.
\<close>

record fieldprop =
  p_name :: string
  p_v :: rvalue
  p_t :: rtype
  p_addressable :: bool
  p_exported :: bool

definition CanSet :: "fieldprop \<Rightarrow> bool" where
  "CanSet p = (p_addressable p \<and> p_exported p)"

definition prop_get :: "golib \<Rightarrow> fieldprop \<Rightarrow> (string \<times> go_error option) res" where
  \<comment> \<open>\<^verbatim>\<open>json.Marshal(p.v.Interface())\<close>; \<^verbatim>\<open>Interface\<close> panics on an unexported field\<close>
  "prop_get L p =
     (if \<not> p_exported p then
        Panic ''reflect.Value.Interface: cannot return value obtained from unexported field or method''
      else Ret (Marshal L (p_v p)))"

definition Value_Set :: "golib \<Rightarrow> rvalue \<Rightarrow> rvalue \<Rightarrow> rvalue res" where
  \<comment> \<open>\<^verbatim>\<open>dst.Set(x)\<close> on a settable \<open>dst\<close>: \<^verbatim>\<open>reflect\<close> panics unless the type of \<open>x\<close>
      is assignable to the type of \<open>dst\<close>; an interface destination wraps \<open>x\<close>\<close>
  "Value_Set L dst x =
     (case dst of
        Zero \<Rightarrow> Panic ''reflect: call of reflect.Value.Set on zero Value''
      | Val dt dd \<Rightarrow>
          (case x of
             Zero \<Rightarrow> Panic ''reflect: call of reflect.Value.Set on zero Value''
           | Val xt xd \<Rightarrow>
               if \<not> AssignableTo L xt dt then
                 Panic (''reflect.Set: value of type '' @ TypeString L xt
                        @ '' is not assignable to type '' @ TypeString L dt)
               else if Kind dt = KInterface \<and> Kind xt \<noteq> KInterface then Ret (Val dt (DIface x))
               else Ret (Val dt xd)))"

definition prop_set :: "golib \<Rightarrow> fieldprop \<Rightarrow> string \<Rightarrow> ((string \<times> go_error option) \<times> fieldprop) res" where
  \<comment> \<open>the result carries the prop after the call; the \<^verbatim>\<open>err\<close> that \<^verbatim>\<open>cast\<close> returns is
      assigned and not read again\<close>
  "prop_set L p injson =
     (case Unmarshal_any L injson of
        Inl e \<Rightarrow> Ret (('''', Some e), p)
      | Inr x \<Rightarrow>
          (case cast L x (p_t p) of
             Raise pv \<Rightarrow> Raise pv
           | Ret (xv, err) \<Rightarrow>
               if \<not> CanSet p then
                 Ret (('''', Some (Errorf (''property '' @ p_name p @ '' is not settable''))), p)
               else
                 (case Value_Set L (p_v p) xv of
                    Raise pv \<Rightarrow> Raise pv
                  | Ret y \<Rightarrow>
                      (case prop_get L (p\<lparr>p_v := y\<rparr>) of
                         Raise pv \<Rightarrow> Raise pv
                       | Ret out \<Rightarrow> Ret (out, p\<lparr>p_v := y\<rparr>)))))"

section \<open>Contexts, the registry and the engine\<close>

text \<open>
  C pointers (\<^verbatim>\<open>*C.JSAPIContext\<close>, \<^verbatim>\<open>*C.JSObject\<close>) are numbers, \<open>NULL\<close> is 0. Go
  pointers to a \<^verbatim>\<open>Context\<close> or an \<^verbatim>\<open>Object\<close> are references into the two heaps of the
  world, so that the registry \<^verbatim>\<open>contexts\<close> and the host share one Context as they do
  in Go.
\<close>

type_synonym handle = nat
type_synonym objid = nat
type_synonym cxref = nat
type_synonym obref = nat

abbreviation (input) NULL :: nat where
  "NULL \<equiv> 0"

record Context =
  ptr :: handle
  objs :: "objid \<rightharpoonup> obref"
  funcs :: "string \<rightharpoonup> Func"
  Valid :: bool
  errs :: "(string \<rightharpoonup> ErrorReport) option"

record Object =
  o_id :: objid
  o_cx :: cxref
  o_funcs :: "string \<rightharpoonup> Func"
  o_props :: "string \<rightharpoonup> fieldprop"
  o_proxy :: rvalue

text \<open>The calls made to the engine's C interface, with their arguments.\<close>

datatype ecall =
    C_NewContext
  | C_DestroyContext handle
  | C_Eval handle string string
  | C_EvalJSON handle string string
  | C_DefineObject handle objid string
  | C_DefineProperty handle objid string
  | C_DefineFunction handle objid string

text \<open>
  While it evaluates, the engine calls back into the exported Go functions
  \<^verbatim>\<open>reporter\<close>, \<^verbatim>\<open>callback\<close>, \<^verbatim>\<open>getprop\<close> and \<^verbatim>\<open>setprop\<close>.
\<close>

datatype event =
    Report handle string nat string
  | CallFn handle objid string string
  | GetProp handle objid string
  | SetProp handle objid string string

text \<open>
  The engine is outside the repository. Each of its answers is a function of the calls
  made to it so far, the current one last: the handle of a new context, the field
  \<^verbatim>\<open>c.o\<close> of a context (its global object), and for an evaluation the callbacks it
  makes, in order, with its status (\<open>True\<close> for \<^verbatim>\<open>JSAPI_OK\<close>; \<^verbatim>\<open>JSAPI_EvalJSON\<close> gives
  the JSON text on success).
\<close>

record engine =
  JSAPI_NewContext :: "ecall list \<Rightarrow> handle"
  context_o :: "handle \<Rightarrow> objid"
  JSAPI_Eval :: "ecall list \<Rightarrow> event list \<times> bool"
  JSAPI_EvalJSON :: "ecall list \<Rightarrow> event list \<times> string option"
  JSAPI_DefineObject :: "ecall list \<Rightarrow> objid"
  JSAPI_DefineProperty :: "ecall list \<Rightarrow> bool"
  JSAPI_DefineFunction :: "ecall list \<Rightarrow> bool"

text \<open>
  The state of the process: the two heaps, the global \<^verbatim>\<open>contexts\<close>, the next free
  reference, the calls the engine has received, and the number of units of work the
  executor \<^verbatim>\<open>jsapi.do\<close> has run.
\<close>

record world =
  cxs :: "cxref \<Rightarrow> Context"
  obs :: "obref \<Rightarrow> Object"
  contexts :: "handle \<rightharpoonup> cxref"
  heap_next :: nat
  calls :: "ecall list"
  jobs :: nat

subsection \<open>The error sink\<close>

definition setError :: "string \<Rightarrow> nat \<Rightarrow> string \<Rightarrow> Context \<Rightarrow> Context" where
  "setError filename line message cx =
     (let m = (case errs cx of None \<Rightarrow> Map.empty | Some m \<Rightarrow> m) in
      cx\<lparr>errs := Some (m(filename \<mapsto>
             \<lparr>Filename = filename, Line = line, Message = message\<rparr>))\<rparr>)"

definition errs_lookup :: "Context \<Rightarrow> string \<Rightarrow> ErrorReport option" where
  \<comment> \<open>\<^verbatim>\<open>cx.errs[k]\<close>; a nil map has no entry\<close>
  "errs_lookup cx k = (case errs cx of None \<Rightarrow> None | Some m \<Rightarrow> m k)"

definition errs_delete :: "string \<Rightarrow> Context \<Rightarrow> Context" where
  \<comment> \<open>\<^verbatim>\<open>delete(cx.errs, k)\<close>; nothing happens on a nil map\<close>
  "errs_delete k cx =
     (case errs cx of None \<Rightarrow> cx | Some m \<Rightarrow> cx\<lparr>errs := Some (m(k := None))\<rparr>)"

definition getError :: "string \<Rightarrow> Context \<Rightarrow> ErrorReport option \<times> Context" where
  \<comment> \<open>the \<^verbatim>\<open>*ErrorReport\<close> returned (\<open>None\<close> is the nil pointer) and the Context after\<close>
  "getError filename cx =
     (case errs_lookup cx filename of
        Some err \<Rightarrow> (Some err, errs_delete filename cx)
      | None \<Rightarrow>
          (case errs_lookup cx ''__fatal__'' of
             Some err \<Rightarrow> (Some err, errs_delete filename cx)
           | None \<Rightarrow> (None, cx)))"

definition Error :: "go_error \<Rightarrow> string res" where
  \<comment> \<open>the method \<^verbatim>\<open>Error\<close> of an \<^verbatim>\<open>error\<close>; on a nil \<^verbatim>\<open>*ErrorReport\<close> it reads a field
      of nil\<close>
  "Error e =
     (case e of
        Errorf s \<Rightarrow> Ret s
      | LibErr s \<Rightarrow> Ret s
      | ReportPtr None \<Rightarrow> Panic ''runtime error: invalid memory address or nil pointer dereference''
      | ReportPtr (Some r) \<Rightarrow> Ret (Filename r @ '':'' @ decimal (Line r) @ '' '' @ Message r))"

subsection \<open>Host closures and the call of a bound function\<close>

text \<open>
  The body of a bound callable is host code. It runs on the owner thread, inside the
  engine's callback, and may use the Context it was bound in: \<^verbatim>\<open>jsapi.do\<close> runs such a
  nested unit of work in place. So a body is a function of its arguments and of the state
  of the process; it returns its results, or panics, with the state it leaves. The host
  gives the body of each closure by its number, and is the parameter \<open>H\<close> below.
\<close>

type_synonym host = "nat \<Rightarrow> rvalue list \<Rightarrow> world \<Rightarrow> rvalue list res \<times> world"

text \<open>
  \<^verbatim>\<open>f.v.Call(invals)\<close>. \<^verbatim>\<open>reflect\<close> checks the number of arguments against the
  function type before it runs the body: a variadic function needs at least its fixed
  parameters, any other function exactly its parameters. Its check that each argument
  is assignable to its parameter is not modelled: an argument that reaches \<^verbatim>\<open>Call\<close>
  here has passed \<open>cast\<close> to that parameter's type.
\<close>

definition Value_Call :: "host \<Rightarrow> rvalue \<Rightarrow> rvalue list \<Rightarrow> world \<Rightarrow> rvalue list res \<times> world" where
  "Value_Call H fv ins w =
     (case fv of
        Val (FuncOf ps variadic rs) (DFunc k) \<Rightarrow>
          if variadic then
            if length ins + 1 < length ps
            then (Panic ''reflect: Call with too few input arguments'', w)
            else H k ins w
          else if length ins < length ps
            then (Panic ''reflect: Call with too few input arguments'', w)
          else if length ins > length ps
            then (Panic ''reflect: Call with too many input arguments'', w)
          else H k ins w
      | _ \<Rightarrow> (Panic ''reflect: call of reflect.Value.Call on non-func Value'', w))"

definition call ::
  "golib \<Rightarrow> host \<Rightarrow> Func \<Rightarrow> string \<Rightarrow> world \<Rightarrow> (string \<times> go_error option) res \<times> world" where
  "call L H f input w =
     (case Unmarshal_args L input of
        Inl e \<Rightarrow> (Ret ('''', Some e), w)
      | Inr inargs \<Rightarrow>
          (case fn_t f of
             FuncOf ps variadic rs \<Rightarrow>
               if length inargs \<noteq> length ps \<and> \<not> variadic then
                 (Ret ('''', Some (Errorf (''Invalid number of arguments: expected ''
                        @ decimal (length ps) @ '' got '' @ decimal (length inargs)))), w)
               else
                 (case cast_args L ps variadic 0 inargs of
                    Raise pv \<Rightarrow> (Raise pv, w)
                  | Ret (Inl e) \<Rightarrow> (Ret ('''', Some e), w)
                  | Ret (Inr invals) \<Rightarrow>
                      (case Value_Call H (fn_v f) invals w of
                         (Raise pv, w') \<Rightarrow> (Raise pv, w')
                       | (Ret outvals, w') \<Rightarrow> (Ret (encode_results L outvals), w')))
           | _ \<Rightarrow> (Panic ''reflect: NumIn of non-func type'', w)))"

definition Call ::
  "golib \<Rightarrow> host \<Rightarrow> Func \<Rightarrow> string \<Rightarrow> world \<Rightarrow> (string \<times> go_error option) \<times> world" where
  \<comment> \<open>the deferred function: \<^verbatim>\<open>if r := recover(); r != nil\<close> sets \<^verbatim>\<open>err\<close> to
      \<^verbatim>\<open>fmt.Errorf("%s: %v", f.Name, r)\<close>; after a panic \<^verbatim>\<open>out\<close> and, when \<^verbatim>\<open>r\<close> is
      nil, \<^verbatim>\<open>err\<close> keep their zero values\<close>
  "Call L H f input w =
     (case call L H f input w of
        (Raise None, w') \<Rightarrow> (('''', None), w')
      | (Raise (Some r), w') \<Rightarrow> (('''', Some (Errorf (Name f @ '': '' @ r))), w')
      | (Ret (out, err), w') \<Rightarrow> ((out, err), w'))"

subsection \<open>The callbacks the engine makes\<close>

definition answer :: "string \<times> go_error option \<Rightarrow> (nat \<times> string) res" where
  \<comment> \<open>the end of each callback: the returned flag and \<^verbatim>\<open>*out\<close>\<close>
  "answer r =
     (case r of
        (outjson, Some err) \<Rightarrow> (case Error err of Raise pv \<Rightarrow> Raise pv | Ret s \<Rightarrow> Ret (0, s))
      | (outjson, None) \<Rightarrow> Ret (1, outjson))"

definition callback ::
  "golib \<Rightarrow> host \<Rightarrow> engine \<Rightarrow> handle \<Rightarrow> objid \<Rightarrow> string \<Rightarrow> string \<Rightarrow> world \<Rightarrow> (nat \<times> string) res \<times> world" where
  "callback L H E c id' cname args w =
     (case contexts w c of
        None \<Rightarrow> (Ret (0, ''attempt to use context after destroyed''), w)
      | Some r \<Rightarrow>
          if id' = context_o E c then
            (case funcs (cxs w r) cname of
               None \<Rightarrow> (Ret (0, ''attempt to use global func that doesn't appear to exist''), w)
             | Some fn \<Rightarrow> (case Call L H fn args w of (out, w') \<Rightarrow> (answer out, w')))
          else
            (case objs (cxs w r) id' of
               None \<Rightarrow> (Ret (0, ''attempt to use global object that doesn't appear to exist''), w)
             | Some oref \<Rightarrow>
                 (case o_funcs (obs w oref) cname of
                    None \<Rightarrow> (Ret (0, ''attempt to use func that doesn't appear to exist''), w)
                  | Some fn \<Rightarrow> (case Call L H fn args w of (out, w') \<Rightarrow> (answer out, w')))))"

definition reporter :: "handle \<Rightarrow> string \<Rightarrow> nat \<Rightarrow> string \<Rightarrow> world \<Rightarrow> world" where
  "reporter c cfilename lineno cmsg w =
     (case contexts w c of
        None \<Rightarrow> w
      | Some r \<Rightarrow> w\<lparr>cxs := (cxs w)(r := setError cfilename lineno cmsg (cxs w r))\<rparr>)"

definition getprop ::
  "golib \<Rightarrow> handle \<Rightarrow> objid \<Rightarrow> string \<Rightarrow> world \<Rightarrow> (nat \<times> string) res \<times> world" where
  "getprop L c id' cname w =
     (case contexts w c of
        None \<Rightarrow> (Ret (0, ''attempt to use context after destroyed''), w)
      | Some r \<Rightarrow>
          (case objs (cxs w r) id' of
             None \<Rightarrow> (Ret (0, ''attempt to use object that doesn't appear to exist''), w)
           | Some oref \<Rightarrow>
               (case o_props (obs w oref) cname of
                  None \<Rightarrow> (Ret (0, ''attempt to get property that doesn't appear to exist''), w)
                | Some p \<Rightarrow>
                    (case prop_get L p of
                       Raise pv \<Rightarrow> (Raise pv, w)
                     | Ret out \<Rightarrow> (answer out, w)))))"

definition setprop ::
  "golib \<Rightarrow> handle \<Rightarrow> objid \<Rightarrow> string \<Rightarrow> string \<Rightarrow> world \<Rightarrow> (nat \<times> string) res \<times> world" where
  "setprop L c id' cname val w =
     (case contexts w c of
        None \<Rightarrow> (Ret (0, ''attempt to use context after destroyed''), w)
      | Some r \<Rightarrow>
          (case objs (cxs w r) id' of
             None \<Rightarrow> (Ret (0, ''attempt to use object that doesn't appear to exist''), w)
           | Some oref \<Rightarrow>
               (case o_props (obs w oref) cname of
                  None \<Rightarrow> (Ret (0, ''attempt to set property that doesn't appear to exist''), w)
                | Some p \<Rightarrow>
                    (case prop_set L p val of
                       Raise pv \<Rightarrow> (Raise pv, w)
                     | Ret (out, p') \<Rightarrow>
                         (answer out,
                          w\<lparr>obs := (obs w)(oref := (obs w oref)
                                \<lparr>o_props := (o_props (obs w oref))(cname \<mapsto> p')\<rparr>)\<rparr>)))))"

fun run_events :: "golib \<Rightarrow> host \<Rightarrow> engine \<Rightarrow> event list \<Rightarrow> world \<Rightarrow> unit res \<times> world" where
  \<comment> \<open>the callbacks of one evaluation, in order; a panic in one of them ends it\<close>
  "run_events L H E [] w = (Ret (), w)"
| "run_events L H E (Report c f n m # evs) w = run_events L H E evs (reporter c f n m w)"
| "run_events L H E (CallFn c i n a # evs) w =
     (case callback L H E c i n a w of
        (Raise pv, w') \<Rightarrow> (Raise pv, w')
      | (Ret x, w') \<Rightarrow> run_events L H E evs w')"
| "run_events L H E (GetProp c i n # evs) w =
     (case getprop L c i n w of
        (Raise pv, w') \<Rightarrow> (Raise pv, w')
      | (Ret x, w') \<Rightarrow> run_events L H E evs w')"
| "run_events L H E (SetProp c i n a # evs) w =
     (case setprop L c i n a w of
        (Raise pv, w') \<Rightarrow> (Raise pv, w')
      | (Ret x, w') \<Rightarrow> run_events L H E evs w')"

subsection \<open>The executor and the operations of a Context\<close>

definition api_do :: "(world \<Rightarrow> 'a res \<times> world) \<Rightarrow> world \<Rightarrow> 'a res \<times> world" where
  \<comment> \<open>\<^verbatim>\<open>jsapi.do\<close>: on the owner thread or through the channel, the unit of work runs
      once and the caller waits for it; a panic of the work is a panic of the process on
      either path\<close>
  "api_do work w = work (w\<lparr>jobs := Suc (jobs w)\<rparr>)"

definition Context_do :: "cxref \<Rightarrow> (world \<Rightarrow> 'a res \<times> world) \<Rightarrow> world \<Rightarrow> 'a res \<times> world" where
  \<comment> \<open>the method \<^verbatim>\<open>do\<close> of a Context\<close>
  "Context_do r work w =
     (if \<not> Valid (cxs w r) then (Panic ''attempt to do a destroyed Context'', w)
      else if \<not> Valid (cxs w r) then (Panic ''context destroyed while waiting for do'', w)
      else api_do work w)"

definition NewContext :: "engine \<Rightarrow> world \<Rightarrow> cxref res \<times> world" where
  \<comment> \<open>the finalizer set at the end belongs to the garbage collector and is not modelled\<close>
  "NewContext E w =
     (let r = heap_next w in
      api_do (\<lambda>w.
        let cs = calls w @ [C_NewContext];
            h = JSAPI_NewContext E cs
        in (Ret r,
            w\<lparr>cxs := (cxs w)(r := \<lparr>ptr = h, objs = Map.empty, funcs = Map.empty,
                                    Valid = True, errs = None\<rparr>),
              contexts := (contexts w)(h \<mapsto> r),
              calls := cs\<rparr>))
        (w\<lparr>cxs := (cxs w)(r := \<lparr>ptr = NULL, objs = Map.empty, funcs = Map.empty,
                                 Valid = False, errs = None\<rparr>),
           heap_next := Suc r\<rparr>))"

definition Destroy :: "cxref \<Rightarrow> world \<Rightarrow> unit res \<times> world" where
  "Destroy r w =
     (if Valid (cxs w r) then
        Context_do r (\<lambda>w.
          let w1 = w\<lparr>calls := calls w @ [C_DestroyContext (ptr (cxs w r))]\<rparr>
          in (Ret (), w1\<lparr>cxs := (cxs w1)(r := (cxs w1 r)\<lparr>Valid := False, ptr := NULL\<rparr>)\<rparr>)) w
      else (Ret (), w))"

definition Exec :: "golib \<Rightarrow> host \<Rightarrow> engine \<Rightarrow> cxref \<Rightarrow> string \<Rightarrow> world \<Rightarrow> go_error option res \<times> world" where
  \<comment> \<open>\<^verbatim>\<open>err = cx.getError(filename)\<close> stores a \<^verbatim>\<open>*ErrorReport\<close> in the interface
      \<^verbatim>\<open>err\<close>, which the test \<^verbatim>\<open>err != nil\<close> then compares with the nil interface\<close>
  "Exec L H E r source w =
     Context_do r (\<lambda>w.
       let filename = ''eval'';
           cs = calls w @ [C_Eval (ptr (cxs w r)) source filename];
           (evs, ok) = JSAPI_Eval E cs
       in (case run_events L H E evs (w\<lparr>calls := cs\<rparr>) of
             (Raise pv, w2) \<Rightarrow> (Raise pv, w2)
           | (Ret u, w2) \<Rightarrow>
               if \<not> ok then
                 (let (rep, cx') = getError filename (cxs w2 r);
                      w3 = w2\<lparr>cxs := (cxs w2)(r := cx')\<rparr>;
                      err = Some (ReportPtr rep)
                  in if err \<noteq> None then (Ret err, w3)
                     else (Ret (Some (Errorf
                            ''Failed to exec javascript and no error report found'')), w3))
               else (Ret None, w2))) w"

definition Eval ::
  "golib \<Rightarrow> host \<Rightarrow> engine \<Rightarrow> cxref \<Rightarrow> string \<Rightarrow> world \<Rightarrow> (rvalue option \<times> go_error option) res \<times> world" where
  \<comment> \<open>the first component is what \<^verbatim>\<open>json.Unmarshal\<close> stores in \<^verbatim>\<open>result\<close>, if it
      stores anything\<close>
  "Eval L H E r source w =
     Context_do r (\<lambda>w.
       let filename = ''eval'';
           cs = calls w @ [C_EvalJSON (ptr (cxs w r)) source filename];
           (evs, jsonData) = JSAPI_EvalJSON E cs
       in (case run_events L H E evs (w\<lparr>calls := cs\<rparr>) of
             (Raise pv, w2) \<Rightarrow> (Raise pv, w2)
           | (Ret u, w2) \<Rightarrow>
               (case jsonData of
                  None \<Rightarrow>
                    (let (rep, cx') = getError filename (cxs w2 r);
                         w3 = w2\<lparr>cxs := (cxs w2)(r := cx')\<rparr>;
                         err = Some (ReportPtr rep)
                     in if err \<noteq> None then (Ret (None, err), w3)
                        else (Ret (None, Some (Errorf
                               ''Failed to eval javascript and no error report found'')), w3))
                | Some b \<Rightarrow>
                    (case Unmarshal_any L b of
                       Inl e \<Rightarrow> (Ret (None, Some e), w2)
                     | Inr x \<Rightarrow> (Ret (Some x, None), w2))))) w"

definition ExecFrom ::
  "golib \<Rightarrow> host \<Rightarrow> engine \<Rightarrow> cxref \<Rightarrow> go_error + string \<Rightarrow> world \<Rightarrow> go_error option res \<times> world" where
  \<comment> \<open>the reader is given by what \<^verbatim>\<open>ioutil.ReadAll\<close> returns on it\<close>
  "ExecFrom L H E r rd w =
     (case rd of
        Inl err \<Rightarrow> (Ret (Some err), w)
      | Inr b \<Rightarrow> Exec L H E r b w)"

definition ExecFile ::
  "golib \<Rightarrow> host \<Rightarrow> engine \<Rightarrow> (string \<Rightarrow> go_error + (go_error + string)) \<Rightarrow> cxref \<Rightarrow> string \<Rightarrow> world
   \<Rightarrow> go_error option res \<times> world" where
  \<comment> \<open>\<open>fs\<close> is \<^verbatim>\<open>os.Open\<close>: its error, or the file as a reader\<close>
  "ExecFile L H E fs r filename w =
     (case fs filename of
        Inl err \<Rightarrow> (Ret (Some err), w)
      | Inr f \<Rightarrow> ExecFrom L H E r f w)"

fun define_fields ::
  "golib \<Rightarrow> engine \<Rightarrow> cxref \<Rightarrow> obref \<Rightarrow> bool \<Rightarrow> (string \<times> rtype) list \<Rightarrow> rvalue list \<Rightarrow> world
   \<Rightarrow> unit res \<times> world" where
  \<comment> \<open>the loop of \<^verbatim>\<open>defineObject\<close> over the fields of the proxy struct; \<open>a\<close> says
      whether the struct was reached through a pointer, \<open>vs\<close> are the fields' values\<close>
  "define_fields L E r oref a [] vs w = (Ret (), w)"
| "define_fields L E r oref a ((n, ty) # fs) vs w =
     (let fv = (case vs of [] \<Rightarrow> Zero | x # xs \<Rightarrow> x);
          p = \<lparr>p_name = n, p_v = fv, p_t = ty, p_addressable = a, p_exported = IsExported L n\<rparr>;
          ob = obs w oref;
          cs = calls w @ [C_DefineProperty (ptr (cxs w r)) (o_id ob) n];
          w1 = w\<lparr>obs := (obs w)(oref := ob\<lparr>o_props := (o_props ob)(n \<mapsto> p)\<rparr>), calls := cs\<rparr>
      in if \<not> JSAPI_DefineProperty E cs then (Panic ''failed to define property'', w1)
         else define_fields L E r oref a fs (tl vs) w1)"

definition struct_values :: "rvalue \<Rightarrow> rvalue list" where
  "struct_values x = (case x of Val ty (DStruct vs) \<Rightarrow> vs | _ \<Rightarrow> [])"

definition defineObject ::
  "golib \<Rightarrow> engine \<Rightarrow> cxref \<Rightarrow> string \<Rightarrow> rvalue \<Rightarrow> objid \<Rightarrow> world \<Rightarrow> obref res \<times> world" where
  \<comment> \<open>\<open>proxy\<close> is \<^verbatim>\<open>reflect.ValueOf(proxy)\<close>, \<open>Zero\<close> for a nil proxy\<close>
  "defineObject L E r name proxy id' w =
     (let oref = heap_next w;
          w0 = w\<lparr>obs := (obs w)(oref := \<lparr>o_id = NULL, o_cx = r, o_funcs = Map.empty,
                                          o_props = Map.empty, o_proxy = Zero\<rparr>),
                 heap_next := Suc oref\<rparr>
      in Context_do r (\<lambda>w.
           let cs = calls w @ [C_DefineObject (ptr (cxs w r)) id' name];
               i = JSAPI_DefineObject E cs;
               w1 = w\<lparr>calls := cs,
                      obs := (obs w)(oref := (obs w oref)\<lparr>o_id := i\<rparr>),
                      cxs := (cxs w)(r := (cxs w r)\<lparr>objs := (objs (cxs w r))(i \<mapsto> oref)\<rparr>)\<rparr>
           in if proxy \<noteq> Zero then
                (let w2 = w1\<lparr>obs := (obs w1)(oref := (obs w1 oref)\<lparr>o_proxy := proxy\<rparr>)\<rparr> in
                 case Type_of proxy of
                   Raise pv \<Rightarrow> (Raise pv, w2)
                 | Ret pt \<Rightarrow>
                     (case (if Kind pt = KPtr
                            then (case Type_of (Indirect proxy) of
                                    Raise pv \<Rightarrow> Raise pv
                                  | Ret it \<Rightarrow> Ret (Indirect proxy, it, True))
                            else Ret (proxy, pt, False)) of
                        Raise pv \<Rightarrow> (Raise pv, w2)
                      | Ret (ov, ot, a) \<Rightarrow>
                          (case ot of
                             StructOf fs \<Rightarrow>
                               (case define_fields L E r oref a fs (struct_values ov) w2 of
                                  (Raise pv, w3) \<Rightarrow> (Raise pv, w3)
                                | (Ret u, w3) \<Rightarrow> (Ret oref, w3))
                           | _ \<Rightarrow>
                               (Panic ''proxy object must be a kind of struct or pointer to a struct'',
                                w2))))
              else (Ret oref, w1)) w0)"

definition DefineObject :: "golib \<Rightarrow> engine \<Rightarrow> cxref \<Rightarrow> string \<Rightarrow> rvalue \<Rightarrow> world \<Rightarrow> obref res \<times> world" where
  "DefineObject L E r name proxy w = defineObject L E r name proxy NULL w"

definition defineFunction ::
  "engine \<Rightarrow> cxref \<Rightarrow> string \<Rightarrow> rvalue \<Rightarrow> objid \<Rightarrow> world \<Rightarrow> Func res \<times> world" where
  "defineFunction E r name fun id' w =
     (case NewFunc fun of
        Raise pv \<Rightarrow> (Raise pv, w)
      | Ret f \<Rightarrow>
          Context_do r (\<lambda>w.
            let cs = calls w @ [C_DefineFunction (ptr (cxs w r)) id' name];
                w1 = w\<lparr>calls := cs\<rparr>
            in if \<not> JSAPI_DefineFunction E cs then (Panic ''failed to define function'', w1)
               else (Ret (f\<lparr>Name := name\<rparr>), w1)) w)"

definition DefineFunction :: "engine \<Rightarrow> cxref \<Rightarrow> string \<Rightarrow> rvalue \<Rightarrow> world \<Rightarrow> Func res \<times> world" where
  "DefineFunction E r name fun w =
     (case defineFunction E r name fun NULL w of
        (Raise pv, w1) \<Rightarrow> (Raise pv, w1)
      | (Ret f, w1) \<Rightarrow>
          (Ret f, w1\<lparr>cxs := (cxs w1)(r := (cxs w1 r)
                      \<lparr>funcs := (funcs (cxs w1 r))(Name f \<mapsto> f)\<rparr>)\<rparr>))"

definition Object_DefineFunction ::
  "engine \<Rightarrow> obref \<Rightarrow> string \<Rightarrow> rvalue \<Rightarrow> world \<Rightarrow> Func res \<times> world" where
  "Object_DefineFunction E oref name fun w =
     (case defineFunction E (o_cx (obs w oref)) name fun (o_id (obs w oref)) w of
        (Raise pv, w1) \<Rightarrow> (Raise pv, w1)
      | (Ret f, w1) \<Rightarrow>
          (Ret f, w1\<lparr>obs := (obs w1)(oref := (obs w1 oref)
                      \<lparr>o_funcs := (o_funcs (obs w1 oref))(Name f \<mapsto> f)\<rparr>)\<rparr>))"

definition Object_DefineObject ::
  "golib \<Rightarrow> engine \<Rightarrow> obref \<Rightarrow> string \<Rightarrow> rvalue \<Rightarrow> world \<Rightarrow> obref res \<times> world" where
  "Object_DefineObject L E oref name proxy w =
     defineObject L E (o_cx (obs w oref)) name proxy (o_id (obs w oref)) w"

section \<open>A sample library, engine and host\<close>

text \<open>
  The theorems below hold for every library, host and engine. Where one of them is
  applied to a concrete run, the run uses this sample. It follows Go on the values met in
  the runs: identical types and \<^verbatim>\<open>interface{}\<close> targets are assignable, the numeric
  types convert to each other, a string does not convert to a number, a slice converts
  to an array or to a pointer to one and the conversion panics when the slice is too
  short; the decoder and the encoder know the JSON texts of the runs; field names are
  ASCII. On other values (fractions, strings that need escapes, conversions to and from
  strings) the sample is no model of Go, and nothing rests on it. The host has ten
  closures, and the engine answers by the text it is given.
\<close>

definition sample_assignable :: "rtype \<Rightarrow> rtype \<Rightarrow> bool" where
  "sample_assignable a b = (a = b \<or> b = InterfaceT)"

fun numeric :: "kind \<Rightarrow> bool" where
  "numeric KInt = True"
| "numeric KInt8 = True"
| "numeric KInt16 = True"
| "numeric KInt32 = True"
| "numeric KInt64 = True"
| "numeric KUint = True"
| "numeric KUint8 = True"
| "numeric KUint16 = True"
| "numeric KUint32 = True"
| "numeric KUint64 = True"
| "numeric KUintptr = True"
| "numeric KFloat32 = True"
| "numeric KFloat64 = True"
| "numeric _ = False"

fun slice_to_array :: "rtype \<Rightarrow> rtype \<Rightarrow> bool" where
  "slice_to_array (SliceOf e) (PtrTo (ArrayOf n e')) = (e = e')"
| "slice_to_array (SliceOf e) (ArrayOf n e') = (e = e')"
| "slice_to_array a b = False"

definition sample_convertible :: "rtype \<Rightarrow> rtype \<Rightarrow> bool" where
  "sample_convertible a b =
     (sample_assignable a b \<or> (numeric (Kind a) \<and> numeric (Kind b)) \<or> slice_to_array a b)"

definition sample_convert :: "rvalue \<Rightarrow> rtype \<Rightarrow> rvalue res" where
  "sample_convert x ty =
     (case x of
        Zero \<Rightarrow> Panic ''reflect: call of reflect.Value.Convert on zero Value''
      | Val xt d \<Rightarrow>
          (case (d, ty) of
             (DSeq xs, PtrTo (ArrayOf n e)) \<Rightarrow>
               if length xs < n then
                 Panic (''reflect: cannot convert slice with length '' @ decimal (length xs)
                        @ '' to pointer to array with length '' @ decimal n)
               else Ret (Val ty (DPtr (Val (ArrayOf n e) (DSeq (take n xs)))))
           | (DSeq xs, ArrayOf n e) \<Rightarrow>
               if length xs < n then
                 Panic (''reflect: cannot convert slice with length '' @ decimal (length xs)
                        @ '' to array with length '' @ decimal n)
               else Ret (Val ty (DSeq (take n xs)))
           | _ \<Rightarrow> Ret (Val ty d)))"

fun sample_type_string :: "rtype \<Rightarrow> string" where
  "sample_type_string (Prim p) = kind_name (prim_kind p)"
| "sample_type_string InterfaceT = ''interface {}''"
| "sample_type_string (PtrTo e) = ''*'' @ sample_type_string e"
| "sample_type_string (SliceOf e) = ''[]'' @ sample_type_string e"
| "sample_type_string (ArrayOf n e) = ''['' @ decimal n @ '']'' @ sample_type_string e"
| "sample_type_string (ChanOf e) = ''chan '' @ sample_type_string e"
| "sample_type_string (MapOf k e) = ''map['' @ sample_type_string k @ '']'' @ sample_type_string e"
| "sample_type_string (FuncOf ps variadic rs) = ''func''"
| "sample_type_string (StructOf fs) = ''struct''"

definition num :: "int \<Rightarrow> rvalue" where
  \<comment> \<open>a JSON number, decoded: a \<^verbatim>\<open>float64\<close>\<close>
  "num n = Val (Prim PFloat64) (DNum n)"

definition str :: "string \<Rightarrow> rvalue" where
  "str s = Val (Prim PString) (DStr s)"

definition sample_unmarshal_args :: "string \<Rightarrow> go_error + rvalue list" where
  \<open>sample_unmarshal_args s =
     (if s = ''[]'' then Inr []
      else if s = ''[1,2]'' then Inr [num 1, num 2]
      else if s = ''[7,2]'' then Inr [num 7, num 2]
      else if s = ''[1]'' then Inr [num 1]
      else if s = ''["BANG"]'' then Inr [str ''BANG'']
      else if s = ''["x",2]'' then Inr [str ''x'', num 2]
      else if s = ''[null]'' then Inr [Zero]
      else Inl (LibErr ''invalid character looking for beginning of value''))\<close>

definition sample_unmarshal_any :: "string \<Rightarrow> go_error + rvalue" where
  \<open>sample_unmarshal_any s =
     (if s = ''25'' then Inr (num 25)
      else if s = ''2'' then Inr (num 2)
      else if s = ''"abc"'' then Inr (str ''abc'')
      else if s = ''"geoff"'' then Inr (str ''geoff'')
      else if s = ''[1]'' then Inr (Val (SliceOf InterfaceT) (DSeq [num 1]))
      else if s = ''true'' then Inr (Val (Prim PBool) (DBool True))
      else if s = ''null'' then Inr Zero
      else Inl (LibErr ''invalid character looking for beginning of value''))\<close>

definition sample_marshal :: "rvalue \<Rightarrow> string \<times> go_error option" where
  \<open>sample_marshal x =
     (case x of
        Zero \<Rightarrow> (''null'', None)
      | Val ty (DNum n) \<Rightarrow> ((if n < 0 then ''-'' else []) @ decimal (nat \<bar>n\<bar>), None)
      | Val ty (DStr s) \<Rightarrow> (''"'' @ s @ ''"'', None)
      | Val ty (DBool b) \<Rightarrow> (if b then ''true'' else ''false'', None)
      | Val ty d \<Rightarrow> ('''', Some (LibErr ''json: unsupported type'')))\<close>

definition sample_exported :: "string \<Rightarrow> bool" where
  "sample_exported n = (case n of [] \<Rightarrow> False | c # cs \<Rightarrow> c \<in> set ''ABCDEFGHIJKLMNOPQRSTUVWXYZ'')"

definition L0 :: golib where
  "L0 = \<lparr>AssignableTo = sample_assignable, ConvertibleTo = sample_convertible,
         Convert = sample_convert, TypeString = sample_type_string,
         Unmarshal_args = sample_unmarshal_args, Unmarshal_any = sample_unmarshal_any,
         Marshal = sample_marshal, IsExported = sample_exported\<rparr>"

definition closure :: "rtype \<Rightarrow> nat \<Rightarrow> rvalue" where
  \<comment> \<open>host closure number \<open>k\<close> as a Value of its function type\<close>
  "closure ty k = Val ty (DFunc k)"

definition bound :: "string \<Rightarrow> rtype \<Rightarrow> nat \<Rightarrow> Func" where
  \<comment> \<open>the Func that \<^verbatim>\<open>defineFunction\<close> makes of an accepted closure\<close>
  "bound name ty k = \<lparr>Name = name, fn_v = closure ty k, fn_t = ty\<rparr>"

definition add_type :: rtype where
  "add_type = FuncOf [Prim PInt, Prim PInt] False [Prim PInt]"

definition raise_type :: rtype where
  "raise_type = FuncOf [Prim PString] False []"

definition nop_type :: rtype where
  "nop_type = FuncOf [] False []"

definition divmod_type :: rtype where
  "divmod_type = FuncOf [Prim PInt, Prim PInt] False [Prim PInt, Prim PInt]"

definition sprintf_type :: rtype where
  "sprintf_type = FuncOf [Prim PString, SliceOf InterfaceT] True [Prim PString]"

definition dynamic_type :: rtype where
  "dynamic_type = FuncOf [] False [Prim PBool]"

definition person :: rvalue where
  \<comment> \<open>\<^verbatim>\<open>&Person{"jeff", 22}\<close> for \<^verbatim>\<open>type Person struct { Name string; Age int }\<close>\<close>
  "person = Val (PtrTo (StructOf [(''Name'', Prim PString), (''Age'', Prim PInt)]))
              (DPtr (Val (StructOf [(''Name'', Prim PString), (''Age'', Prim PInt)])
                 (DStruct [Val (Prim PString) (DStr ''jeff''), Val (Prim PInt) (DNum 22)])))"

definition age_prop :: fieldprop where
  "age_prop = \<lparr>p_name = ''Age'', p_v = Val (Prim PInt) (DNum 22), p_t = Prim PInt,
               p_addressable = True, p_exported = True\<rparr>"

definition pair_prop :: fieldprop where
  \<comment> \<open>a settable field \<^verbatim>\<open>Pair\<close> of type \<^verbatim>\<open>*[2]interface{}\<close> that holds nil\<close>
  "pair_prop = \<lparr>p_name = ''Pair'', p_v = Val (PtrTo (ArrayOf 2 InterfaceT)) (DPtr Zero),
                p_t = PtrTo (ArrayOf 2 InterfaceT), p_addressable = True, p_exported = True\<rparr>"

definition E0 :: engine where
  \<comment> \<open>the engine fails to define an object named \<^verbatim>\<open>fail\<close> and returns \<^verbatim>\<open>NULL\<close> for it;
      it refuses a property named \<^verbatim>\<open>Bad\<close> and a function named \<^verbatim>\<open>bad\<close>\<close>
  "E0 = \<lparr>JSAPI_NewContext = (\<lambda>cs. 100 + length cs),
         context_o = (\<lambda>h. 5),
         JSAPI_Eval = (\<lambda>cs. case rev cs of
             C_Eval h src fn # old \<Rightarrow>
               if src = ''throw 1'' then ([Report h fn 1 ''uncaught exception: 1''], False)
               else if src = ''fatal'' then ([Report h ''__fatal__'' 0 ''out of memory''], False)
               else if src = ''lost'' then ([], False)
               else if src = ''mkfun()'' then ([CallFn h 5 ''mkfun'' ''[]''], True)
               else ([], True)
           | _ \<Rightarrow> ([], True)),
         JSAPI_EvalJSON = (\<lambda>cs. case rev cs of
             C_EvalJSON h src fn # old \<Rightarrow>
               if src = ''1+1'' then ([], Some ''2'')
               else if src = ''lost'' then ([], None)
               else if src = ''dynamic()'' then ([CallFn h 5 ''dynamic'' ''[]''], Some ''true'')
               else ([], Some ''null'')
           | _ \<Rightarrow> ([], Some ''null'')),
         JSAPI_DefineObject = (\<lambda>cs. case rev cs of
             C_DefineObject h i n # old \<Rightarrow> if n = ''fail'' then NULL else 10 + length cs
           | _ \<Rightarrow> NULL),
         JSAPI_DefineProperty = (\<lambda>cs. case rev cs of
             C_DefineProperty h i n # old \<Rightarrow> n \<noteq> ''Bad''
           | _ \<Rightarrow> True),
         JSAPI_DefineFunction = (\<lambda>cs. case rev cs of
             C_DefineFunction h i n # old \<Rightarrow> n \<noteq> ''bad''
           | _ \<Rightarrow> True)\<rparr>"

definition sample_body :: "nat \<Rightarrow> rvalue list \<Rightarrow> rvalue list res" where
  \<comment> \<open>the closures that leave the Context alone.
      10: \<^verbatim>\<open>func(a int, b int) int { return a + b }\<close>;
      11: \<^verbatim>\<open>func(msg string) { panic(msg) }\<close>;
      12: \<^verbatim>\<open>func() {}\<close>;
      13: \<^verbatim>\<open>func(a int, b int) (int, int) { return a / b, a % b }\<close> on non-negative
          arguments;
      14: \<^verbatim>\<open>func(format string, args ...interface{}) string { return format }\<close>;
      16: \<^verbatim>\<open>func() bool { return true }\<close>;
      18: \<^verbatim>\<open>func() { panic(nil) }\<close>, built so that \<^verbatim>\<open>recover\<close> returns nil\<close>
  "sample_body k xs =
     (if k = 10 then
        (case xs of
           [Val ta (DNum a), Val tb (DNum b)] \<Rightarrow> Ret [Val (Prim PInt) (DNum (a + b))]
         | _ \<Rightarrow> Ret [Val (Prim PInt) (DNum 0)])
      else if k = 11 then
        (case xs of [Val ta (DStr m)] \<Rightarrow> Panic m | _ \<Rightarrow> Panic [])
      else if k = 12 then Ret []
      else if k = 13 then
        (case xs of
           [Val ta (DNum a), Val tb (DNum b)] \<Rightarrow>
             if b = 0 then Panic ''runtime error: integer divide by zero''
             else Ret [Val (Prim PInt) (DNum (a div b)), Val (Prim PInt) (DNum (a mod b))]
         | _ \<Rightarrow> Ret [Val (Prim PInt) (DNum 0), Val (Prim PInt) (DNum 0)])
      else if k = 14 then
        (case xs of x # ys \<Rightarrow> Ret [x] | [] \<Rightarrow> Ret [str []])
      else if k = 16 then Ret [Val (Prim PBool) (DBool True)]
      else if k = 18 then PanicNil
      else Ret [])"

definition H0 :: host where
  \<comment> \<open>the closures that use the Context \<^verbatim>\<open>cx\<close> of the runs, reference 20.
      15: \<^verbatim>\<open>func() { cx.DefineFunction("dynamic", func() bool { return true }) }\<close>;
      17: \<^verbatim>\<open>func() { cx.Destroy(); panic("gone") }\<close>;
      19: \<^verbatim>\<open>func() { cx.DefineFunction("late", func() bool { return true }); panic("after") }\<close>\<close>
  "H0 k xs w =
     (if k = 15 then
        (case DefineFunction E0 20 ''dynamic'' (closure dynamic_type 16) w of
           (Raise pv, w') \<Rightarrow> (Raise pv, w')
         | (Ret f, w') \<Rightarrow> (Ret [], w'))
      else if k = 17 then
        (case Destroy 20 w of
           (Raise pv, w') \<Rightarrow> (Raise pv, w')
         | (Ret u, w') \<Rightarrow> (Panic ''gone'', w'))
      else if k = 19 then
        (case DefineFunction E0 20 ''late'' (closure dynamic_type 16) w of
           (Raise pv, w') \<Rightarrow> (Raise pv, w')
         | (Ret f, w') \<Rightarrow> (Panic ''after'', w'))
      else (sample_body k xs, w))"

definition world0 :: world where
  \<comment> \<open>the process before any Context exists\<close>
  "world0 = \<lparr>cxs = (\<lambda>r. \<lparr>ptr = NULL, objs = Map.empty, funcs = Map.empty,
                           Valid = False, errs = None\<rparr>),
             obs = (\<lambda>r. \<lparr>o_id = NULL, o_cx = 0, o_funcs = Map.empty, o_props = Map.empty,
                           o_proxy = Zero\<rparr>),
             contexts = Map.empty, heap_next = 20, calls = [], jobs = 0\<rparr>"

definition world1 :: world where
  \<comment> \<open>after \<^verbatim>\<open>cx := NewContext()\<close>: the Context is reference 20, its handle 101,
      its global object 5\<close>
  "world1 = snd (NewContext E0 world0)"

definition world2 :: world where
  \<comment> \<open>after \<^verbatim>\<open>cx.DefineFunction("add", ...)\<close>\<close>
  "world2 = snd (DefineFunction E0 20 ''add'' (closure add_type 10) world1)"

definition world3 :: world where
  \<comment> \<open>after \<^verbatim>\<open>cx.DefineObject("o", person)\<close>: the Object is reference 21, its id 13\<close>
  "world3 = snd (DefineObject L0 E0 20 ''o'' person world2)"

definition world4 :: world where
  \<comment> \<open>after \<^verbatim>\<open>cx.Destroy()\<close>\<close>
  "world4 = snd (Destroy 20 world3)"

definition world5 :: world where
  \<comment> \<open>\<open>world3\<close> after \<^verbatim>\<open>cx.DefineFunction("raise", func(msg string) { panic(msg) })\<close>\<close>
  "world5 = snd (DefineFunction E0 20 ''raise'' (closure raise_type 11) world3)"

definition world6 :: world where
  \<comment> \<open>\<open>world5\<close> after \<^verbatim>\<open>o.DefineFunction("raise", ...)\<close> on the Object of \<open>world3\<close>\<close>
  "world6 = snd (Object_DefineFunction E0 21 ''raise'' (closure raise_type 11) world5)"

definition world7 :: world where
  \<comment> \<open>\<open>world6\<close> after the closures 15, 17, 18 and 19 are bound as \<^verbatim>\<open>mkfun\<close>,
      \<^verbatim>\<open>wreck\<close>, \<^verbatim>\<open>hush\<close> and \<^verbatim>\<open>stumble\<close>\<close>
  "world7 =
     snd (DefineFunction E0 20 ''stumble'' (closure nop_type 19)
       (snd (DefineFunction E0 20 ''hush'' (closure nop_type 18)
         (snd (DefineFunction E0 20 ''wreck'' (closure nop_type 17)
           (snd (DefineFunction E0 20 ''mkfun'' (closure nop_type 15) world6)))))))"

definition world8 :: world where
  \<comment> \<open>\<open>world7\<close> after \<^verbatim>\<open>cx.DefineFunction("late", ...)\<close>, as the body of closure 19
      leaves it\<close>
  "world8 = snd (DefineFunction E0 20 ''late'' (closure dynamic_type 16) world7)"

definition world9 :: world where
  \<comment> \<open>\<open>world7\<close> after \<^verbatim>\<open>cx.Destroy()\<close>, as the body of closure 17 leaves it\<close>
  "world9 = snd (Destroy 20 world7)"

section \<open>The sample run, evaluated\<close>

lemma world1_eval:
  "world1 = world0\<lparr>cxs := (cxs world0)(20 := \<lparr>ptr = 101, objs = Map.empty, funcs = Map.empty,
       Valid = True, errs = None\<rparr>), contexts := [101 \<mapsto> 20], heap_next := 21,
       calls := [C_NewContext], jobs := 1\<rparr>"
  by (simp add: world1_def NewContext_def api_do_def Let_def world0_def E0_def)

lemma world1_facts:
  "Valid (cxs world1 20)" "ptr (cxs world1 20) = 101" "contexts world1 101 = Some 20"
  "errs (cxs world1 20) = None" "calls world1 = [C_NewContext]" "jobs world1 = 1"
  by (simp_all add: world1_eval world0_def)

lemma NewFunc_closure_add: "NewFunc (closure add_type 10) = Ret (bound ''[anon]'' add_type 10)"
  by (simp add: NewFunc_def closure_def add_type_def bound_def)

lemma world2_eval:
  "world2 = world1\<lparr>cxs := (cxs world1)(20 := (cxs world1 20)
       \<lparr>funcs := [''add'' \<mapsto> bound ''add'' add_type 10]\<rparr>),
       calls := [C_NewContext, C_DefineFunction 101 NULL ''add''], jobs := 2\<rparr>"
  by (simp add: world2_def DefineFunction_def defineFunction_def NewFunc_closure_add Context_do_def
      api_do_def Let_def world1_eval world0_def E0_def bound_def)

lemma world3_facts:
  "Valid (cxs world3 20)" "ptr (cxs world3 20) = 101" "contexts world3 101 = Some 20"
  "funcs (cxs world3 20) ''add'' = Some (bound ''add'' add_type 10)"
  "objs (cxs world3 20) 13 = Some 21"
  "o_props (obs world3 21) ''Age'' = Some age_prop"
  "calls world3 = [C_NewContext, C_DefineFunction 101 NULL ''add'', C_DefineObject 101 NULL ''o'',
       C_DefineProperty 101 13 ''Name'', C_DefineProperty 101 13 ''Age'']"
  "jobs world3 = 3" "errs (cxs world3 20) = None" "heap_next world3 = 22"
  by (simp_all add: world3_def DefineObject_def defineObject_def Context_do_def api_do_def Let_def
      world2_eval world1_eval world0_def E0_def person_def Type_of_def Indirect_def
      struct_values_def age_prop_def L0_def sample_exported_def)

lemma world4_facts:
  "fst (Destroy 20 world3) = Ret ()"
  "\<not> Valid (cxs world4 20)" "ptr (cxs world4 20) = NULL" "contexts world4 101 = Some 20"
  "funcs (cxs world4 20) ''add'' = Some (bound ''add'' add_type 10)"
  "objs (cxs world4 20) 13 = Some 21"
  "o_props (obs world4 21) ''Age'' = Some age_prop"
  "calls world4 = calls world3 @ [C_DestroyContext 101]"
  "jobs world4 = 4"
  by (simp_all add: world4_def Destroy_def Context_do_def api_do_def Let_def world3_facts)

lemma H0_pure:
  "k \<noteq> 15 \<Longrightarrow> k \<noteq> 17 \<Longrightarrow> k \<noteq> 19 \<Longrightarrow> H0 k xs w = (sample_body k xs, w)"
  by (simp add: H0_def)

lemma Call_add: "Call L0 H0 (bound ''add'' add_type 10) ''[1,2]'' w = ((''3'', None), w)"
  by (simp add: Call_def call_def L0_def bound_def add_type_def closure_def sample_unmarshal_args_def
      arg_type_def cast_def Type_of_def num_def sample_assignable_def sample_convertible_def
      sample_convert_def Value_Call_def H0_pure sample_body_def encode_results_def sample_marshal_def
      decimal.simps digit_def)

lemma world4_callback:
  "callback L0 H0 E0 101 5 ''add'' ''[1,2]'' world4 = (Ret (1, ''3''), world4)"
proof -
  have "context_o E0 101 = 5" by (simp add: E0_def)
  then show ?thesis
    by (simp add: callback_def world4_facts Call_add answer_def)
qed

lemma prop_get_age: "prop_get L0 age_prop = Ret (''22'', None)"
  by (simp add: prop_get_def age_prop_def L0_def sample_marshal_def decimal.simps digit_def)

lemma prop_set_age:
  "prop_set L0 age_prop ''25'' =
     Ret ((''25'', None), age_prop\<lparr>p_v := Val (Prim PInt) (DNum 25)\<rparr>)"
  by (simp add: prop_set_def prop_get_def age_prop_def L0_def sample_marshal_def decimal.simps
      digit_def sample_unmarshal_any_def cast_def num_def Type_of_def sample_assignable_def
      sample_convertible_def sample_convert_def CanSet_def Value_Set_def)

section \<open>The casting rule\<close>

lemma cast_Zero: "cast L Zero ty = Panic ''reflect: call of reflect.Value.Type on zero Value''"
  by (simp add: cast_def Type_of_def)

lemma cast_on_valid:
  "x = Val xt d \<Longrightarrow>
   (if Kind xt = KPtr \<and> Kind ty \<noteq> KPtr then Indirect x else x) = Val yt e \<Longrightarrow>
   cast L x ty =
     (if AssignableTo L yt ty then Ret (Val yt e, None)
      else if ConvertibleTo L yt ty then
        (case Convert L (Val yt e) ty of Raise pv \<Rightarrow> Raise pv | Ret z \<Rightarrow> Ret (z, None))
      else Ret (Val yt e, Some (Errorf (''cannot cast '' @ kind_name (Kind yt) @ '' to ''
                                        @ kind_name (Kind ty)))))"
proof (cases "Kind xt = KPtr \<and> Kind ty \<noteq> KPtr")
  case True
  assume "x = Val xt d"
    and "(if Kind xt = KPtr \<and> Kind ty \<noteq> KPtr then Indirect x else x) = Val yt e"
  with True have "Indirect (Val xt d) = Val yt e" by simp
  with True \<open>x = Val xt d\<close> show ?thesis
    by (simp add: cast_def Type_of_def Let_def)
next
  case False
  assume "x = Val xt d"
    and "(if Kind xt = KPtr \<and> Kind ty \<noteq> KPtr then Indirect x else x) = Val yt e"
  with False have "yt = xt" and "e = d" by auto
  with False \<open>x = Val xt d\<close> show ?thesis
    by (auto simp add: cast_def Type_of_def Let_def)
qed

lemma cast_error_not_assignable:
  assumes "cast L x ty = Ret (xv, Some e)"
  shows "\<exists>yt yd. xv = Val yt yd \<and> \<not> AssignableTo L yt ty"
proof (cases x)
  case Zero
  with assms show ?thesis by (simp add: cast_def Type_of_def)
next
  case (Val xt d)
  let ?y = "if Kind xt = KPtr \<and> Kind ty \<noteq> KPtr then Indirect x else x"
  show ?thesis
  proof (cases ?y)
    case Zero
    with assms Val show ?thesis by (simp add: cast_def Type_of_def Let_def split: if_splits)
  next
    case (Val yt yd)
    from cast_on_valid [OF \<open>x = Val xt d\<close> Val, of L] assms
    show ?thesis by (simp split: if_splits res.splits)
  qed
qed

lemma cast_ok_assignable_or_converted:
  assumes "cast L x ty = Ret (xv, None)"
  shows "(\<exists>yt yd. xv = Val yt yd \<and> AssignableTo L yt ty) \<or> (\<exists>y. Convert L y ty = Ret xv)"
proof (cases x)
  case Zero
  with assms show ?thesis by (simp add: cast_def Type_of_def)
next
  case (Val xt d)
  let ?y = "if Kind xt = KPtr \<and> Kind ty \<noteq> KPtr then Indirect x else x"
  show ?thesis
  proof (cases ?y)
    case Zero
    with assms Val show ?thesis by (simp add: cast_def Type_of_def Let_def split: if_splits)
  next
    case (Val yt yd)
    from cast_on_valid [OF \<open>x = Val xt d\<close> Val, of L] assms
    show ?thesis by (auto split: if_splits res.splits)
  qed
qed

lemma Kind_ptr: "Kind t = KPtr \<Longrightarrow> \<exists>e. t = PtrTo e"
proof (cases t)
  case (Prim p)
  assume "Kind t = KPtr"
  with Prim show ?thesis by (cases p) simp_all
qed simp_all

lemma cast_panics:
  assumes "cast L x ty = Raise pv"
  shows "x = Zero
         \<or> (Kind ty \<noteq> KPtr \<and> (\<exists>e d. x = Val (PtrTo e) d) \<and> Indirect x = Zero)
         \<or> (\<exists>y. Convert L y ty = Raise pv)"
proof (cases x)
  case Zero
  then show ?thesis by simp
next
  case (Val xt d)
  let ?y = "if Kind xt = KPtr \<and> Kind ty \<noteq> KPtr then Indirect x else x"
  show ?thesis
  proof (cases ?y)
    case Zero
    with Val have k: "Kind xt = KPtr" "Kind ty \<noteq> KPtr" "Indirect x = Zero"
      by (auto split: if_splits)
    from k(1) obtain e where "xt = PtrTo e" using Kind_ptr by blast
    with Val k show ?thesis by auto
  next
    case (Val yt yd)
    from cast_on_valid [OF \<open>x = Val xt d\<close> Val, of L] assms
    show ?thesis by (auto split: if_splits res.splits)
  qed
qed

text \<open>
  Claim C6, as amended. Let \<open>x\<close> be a Value other than the zero Value and \<open>y\<close> be
  \<open>x\<close> itself, or what \<open>x\<close> points to when the type of \<open>x\<close> is a pointer and the target
  type \<open>ty\<close> is not; let \<open>y\<close> not be the zero Value either (\<open>x\<close> is not a nil pointer
  that is dereferenced). Then \<^verbatim>\<open>cast\<close> returns \<open>y\<close> unchanged with no error when the type
  of \<open>y\<close> is assignable to \<open>ty\<close>. Otherwise, when it is convertible to \<open>ty\<close>, \<^verbatim>\<open>cast\<close>
  calls \<^verbatim>\<open>Convert\<close>: it returns the converted \<open>y\<close> with no error when the conversion
  returns, and it panics with the panic of the conversion when the conversion panics (a
  slice shorter than the array it is converted to). Otherwise it returns \<open>y\<close> with the
  error \<^verbatim>\<open>cannot cast A to B\<close>, where A is the kind of \<open>y\<close> and B the kind of \<open>ty\<close>.
\<close>

theorem cast_rule:
  "x = Val xt d \<Longrightarrow>
   (if Kind xt = KPtr \<and> Kind ty \<noteq> KPtr then Indirect x else x) = Val yt e \<Longrightarrow>
   cast L x ty =
     (if AssignableTo L yt ty then Ret (Val yt e, None)
      else if ConvertibleTo L yt ty then
        (case Convert L (Val yt e) ty of Raise pv \<Rightarrow> Raise pv | Ret z \<Rightarrow> Ret (z, None))
      else Ret (Val yt e, Some (Errorf (''cannot cast '' @ kind_name (Kind yt) @ '' to ''
                                        @ kind_name (Kind ty)))))"
  by (rule cast_on_valid)

text \<open>
  The claim as stated, for every value, fails in three places, where \<^verbatim>\<open>cast\<close> returns
  neither a value nor an error. On the zero Value, which is what a JSON \<^verbatim>\<open>null\<close> decodes
  to, and on a nil pointer cast to a type that is not a pointer, the call \<^verbatim>\<open>v.Type()\<close>
  panics. On a value that is convertible to the target and whose conversion panics, here
  the slice that the JSON text \<^verbatim>\<open>[1]\<close> decodes to, cast to \<^verbatim>\<open>*[2]interface{}\<close>, the
  call \<^verbatim>\<open>v.Convert(t)\<close> panics; \<^verbatim>\<open>set\<close> of that text on a field of that type reaches it.
\<close>

theorem cast_counterexample:
  "cast L0 Zero (Prim PInt) = Panic ''reflect: call of reflect.Value.Type on zero Value'' \<and>
   cast L0 (Val (PtrTo (Prim PInt)) (DPtr Zero)) (Prim PInt)
     = Panic ''reflect: call of reflect.Value.Type on zero Value'' \<and>
   \<not> AssignableTo L0 (SliceOf InterfaceT) (PtrTo (ArrayOf 2 InterfaceT)) \<and>
   ConvertibleTo L0 (SliceOf InterfaceT) (PtrTo (ArrayOf 2 InterfaceT)) \<and>
   cast L0 (Val (SliceOf InterfaceT) (DSeq [num 1])) (PtrTo (ArrayOf 2 InterfaceT))
     = Panic ''reflect: cannot convert slice with length 1 to pointer to array with length 2'' \<and>
   Unmarshal_any L0 ''[1]'' = Inr (Val (SliceOf InterfaceT) (DSeq [num 1])) \<and>
   prop_set L0 pair_prop ''[1]''
     = Panic ''reflect: cannot convert slice with length 1 to pointer to array with length 2''"
  by (simp add: cast_def Type_of_def Indirect_def L0_def sample_assignable_def
      sample_convertible_def sample_convert_def decimal.simps digit_def prop_set_def
      sample_unmarshal_any_def pair_prop_def)

theorem cast_rule_witness:
  "cast L0 (Val (PtrTo (Prim PInt)) (DPtr (Val (Prim PInt) (DNum 5)))) (Prim PFloat64)
     = Ret (Val (Prim PFloat64) (DNum 5), None) \<and>
   cast L0 (num 1) InterfaceT = Ret (num 1, None) \<and>
   cast L0 (Val (PtrTo (Prim PInt)) (DPtr (Val (Prim PInt) (DNum 5)))) (PtrTo (Prim PInt))
     = Ret (Val (PtrTo (Prim PInt)) (DPtr (Val (Prim PInt) (DNum 5))), None) \<and>
   cast L0 (str ''abc'') (Prim PInt)
     = Ret (str ''abc'', Some (Errorf ''cannot cast string to int'')) \<and>
   cast L0 (Val (SliceOf InterfaceT) (DSeq [num 1, num 2])) (PtrTo (ArrayOf 2 InterfaceT))
     = Ret (Val (PtrTo (ArrayOf 2 InterfaceT))
              (DPtr (Val (ArrayOf 2 InterfaceT) (DSeq [num 1, num 2]))), None) \<and>
   cast L0 (Val (SliceOf InterfaceT) (DSeq [num 1])) (PtrTo (ArrayOf 2 InterfaceT))
     = Panic ''reflect: cannot convert slice with length 1 to pointer to array with length 2''"
  using cast_rule [of "Val (PtrTo (Prim PInt)) (DPtr (Val (Prim PInt) (DNum 5)))" "PtrTo (Prim PInt)"
      "DPtr (Val (Prim PInt) (DNum 5))" "Prim PFloat64" "Prim PInt" "DNum 5" L0]
    cast_rule [of "num 1" "Prim PFloat64" "DNum 1" InterfaceT "Prim PFloat64" "DNum 1" L0]
    cast_rule [of "Val (PtrTo (Prim PInt)) (DPtr (Val (Prim PInt) (DNum 5)))" "PtrTo (Prim PInt)"
      "DPtr (Val (Prim PInt) (DNum 5))" "PtrTo (Prim PInt)" "PtrTo (Prim PInt)"
      "DPtr (Val (Prim PInt) (DNum 5))" L0]
    cast_rule [of "str ''abc''" "Prim PString" "DStr ''abc''" "Prim PInt" "Prim PString"
      "DStr ''abc''" L0]
    cast_rule [of "Val (SliceOf InterfaceT) (DSeq [num 1, num 2])" "SliceOf InterfaceT"
      "DSeq [num 1, num 2]" "PtrTo (ArrayOf 2 InterfaceT)" "SliceOf InterfaceT"
      "DSeq [num 1, num 2]" L0]
    cast_rule [of "Val (SliceOf InterfaceT) (DSeq [num 1])" "SliceOf InterfaceT"
      "DSeq [num 1]" "PtrTo (ArrayOf 2 InterfaceT)" "SliceOf InterfaceT"
      "DSeq [num 1]" L0]
  by (simp add: Indirect_def num_def str_def L0_def sample_assignable_def sample_convertible_def
      sample_convert_def decimal.simps digit_def)

section \<open>Dispatch to a bound function\<close>

lemma cast_args_length:
  "cast_args L ps variadic i xs = Ret (Inr ys) \<Longrightarrow> length ys = length xs"
proof (induction xs arbitrary: i ys)
  case Nil
  then show ?case by simp
next
  case (Cons a as)
  then show ?case
    by (auto split: res.splits prod.splits option.splits sum.splits)
qed

lemma marshal_each_all:
  "list_all (\<lambda>r. snd (Marshal L r) = None) xs \<Longrightarrow>
   marshal_each L xs = Inr (map (\<lambda>r. fst (Marshal L r)) xs)"
  by (induction xs) (auto split: prod.splits option.splits)

lemma Call_of_call:
  "call L H f input w = (Ret oe, w') \<Longrightarrow> Call L H f input w = (oe, w')"
  "call L H f input w = (Panic p, w') \<Longrightarrow>
     Call L H f input w = (([], Some (Errorf (Name f @ '': '' @ p))), w')"
  "call L H f input w = (PanicNil, w') \<Longrightarrow> Call L H f input w = (([], None), w')"
  by (simp_all add: Call_def split: prod.splits)

lemma call_arity_mismatch:
  assumes "Unmarshal_args L input = Inr inargs" and "fn_t f = FuncOf ps False rs"
    and "length inargs \<noteq> length ps"
  shows "call L H f input w = (Ret ([], Some (Errorf (''Invalid number of arguments: expected ''
            @ decimal (length ps) @ '' got '' @ decimal (length inargs)))), w)"
  using assms by (simp add: call_def)

lemma call_past_arity:
  assumes "Unmarshal_args L input = Inr inargs" and "fn_t f = FuncOf ps variadic rs"
    and "variadic \<or> length inargs = length ps"
    and "cast_args L ps variadic 0 inargs = Ret (Inr invals)"
  shows "call L H f input w =
     (case Value_Call H (fn_v f) invals w of
        (Raise pv, w') \<Rightarrow> (Raise pv, w')
      | (Ret outvals, w') \<Rightarrow> (Ret (encode_results L outvals), w'))"
  using assms by (auto simp add: call_def)

lemma Value_Call_too_few:
  "length ins + 1 < length ps \<Longrightarrow>
   Value_Call H (Val (FuncOf ps True rs) (DFunc k)) ins w
     = (Panic ''reflect: Call with too few input arguments'', w)"
  by (simp add: Value_Call_def)

lemma Value_Call_body:
  "(if variadic then length ps \<le> length ins + 1 else length ins = length ps) \<Longrightarrow>
   Value_Call H (Val (FuncOf ps variadic rs) (DFunc k)) ins w = H k ins w"
  by (auto simp add: Value_Call_def)

lemma Value_Call_state:
  "Value_Call H fv ins w = (x, w') \<Longrightarrow> w' = w \<or> (\<exists>k. H k ins w = (x, w'))"
  by (auto simp add: Value_Call_def
      split: rvalue.splits rtype.splits data.splits if_splits)

lemma call_state:
  assumes "call L H f input w = (Raise pv, w')"
  shows "w' = w \<or> (\<exists>k invals. H k invals w = (Raise pv, w'))"
proof (cases "Unmarshal_args L input")
  case (Inl e)
  with assms show ?thesis by (simp add: call_def)
next
  case (Inr inargs)
  show ?thesis
  proof (cases "\<exists>ps variadic rs. fn_t f = FuncOf ps variadic rs")
    case False
    with assms Inr show ?thesis by (auto simp add: call_def split: rtype.splits)
  next
    case True
    then obtain ps variadic rs where t: "fn_t f = FuncOf ps variadic rs" by blast
    show ?thesis
    proof (cases "length inargs \<noteq> length ps \<and> \<not> variadic")
      case True
      with assms Inr t show ?thesis by (simp add: call_def)
    next
      case False
      show ?thesis
      proof (cases "cast_args L ps variadic 0 inargs")
        case (Raise q)
        with assms Inr t False show ?thesis by (simp add: call_def)
      next
        case (Ret c)
        show ?thesis
        proof (cases c)
          case (Inl e)
          with assms Inr t False Ret show ?thesis by (simp add: call_def)
        next
          case (Inr invals)
          obtain x w2 where v: "Value_Call H (fn_v f) invals w = (x, w2)"
            by (cases "Value_Call H (fn_v f) invals w")
          with assms \<open>Unmarshal_args L input = Inr inargs\<close> t False Ret Inr
          have "x = Raise pv" and "w2 = w'"
            by (auto simp add: call_def split: res.splits)
          with v Value_Call_state [of H "fn_v f" invals w x w2] show ?thesis by blast
        qed
      qed
    qed
  qed
qed

text \<open>
  Claim C3, as amended. When the callable is not variadic, a decoded argument count
  different from its parameter count gives the recoverable error
  \<^verbatim>\<open>Invalid number of arguments: expected N got M\<close> with the two counts. When the
  callable is variadic, \<^verbatim>\<open>call\<close> does not check the count at all. With at least as many
  arguments as fixed parameters, and every cast succeeding, the callable's body is
  invoked on the cast arguments. With fewer, and every cast succeeding, it is
  \<^verbatim>\<open>reflect\<close>'s \<^verbatim>\<open>Call\<close> that panics, and \<^verbatim>\<open>Call\<close> returns the recovered panic as the
  recoverable error \<^verbatim>\<open>NAME: reflect: Call with too few input arguments\<close>, which reports
  no counts. In the two cases of an error the state of the process is left as it was.
\<close>

theorem arity_check:
  assumes "Unmarshal_args L input = Inr inargs" and "fn_t f = FuncOf ps variadic rs"
    and "fn_v f = Val (FuncOf ps variadic rs) (DFunc k)"
  shows "(\<not> variadic \<and> length inargs \<noteq> length ps \<longrightarrow>
            Call L H f input w = (([], Some (Errorf (''Invalid number of arguments: expected ''
              @ decimal (length ps) @ '' got '' @ decimal (length inargs)))), w)) \<and>
         (variadic \<and> cast_args L ps variadic 0 inargs = Ret (Inr invals) \<longrightarrow>
            (length ps \<le> length inargs + 1 \<longrightarrow>
               call L H f input w =
                 (case H k invals w of
                    (Raise pv, w') \<Rightarrow> (Raise pv, w')
                  | (Ret outvals, w') \<Rightarrow> (Ret (encode_results L outvals), w'))) \<and>
            (length inargs + 1 < length ps \<longrightarrow>
               Call L H f input w =
                 (([], Some (Errorf (Name f @ '': reflect: Call with too few input arguments''))),
                  w)))"
proof (intro conjI impI)
  assume "\<not> variadic \<and> length inargs \<noteq> length ps"
  with assms call_arity_mismatch [of L input inargs f ps rs H w]
  show "Call L H f input w = (([], Some (Errorf (''Invalid number of arguments: expected ''
              @ decimal (length ps) @ '' got '' @ decimal (length inargs)))), w)"
    by (simp add: Call_of_call)
next
  assume v: "variadic \<and> cast_args L ps variadic 0 inargs = Ret (Inr invals)"
  then have len: "length invals = length inargs" using cast_args_length by blast
  from v assms have c: "call L H f input w =
     (case Value_Call H (fn_v f) invals w of
        (Raise pv, w') \<Rightarrow> (Raise pv, w')
      | (Ret outvals, w') \<Rightarrow> (Ret (encode_results L outvals), w'))"
    using call_past_arity by blast
  {
    assume "length ps \<le> length inargs + 1"
    with v len assms(3) c
    show "call L H f input w =
                 (case H k invals w of
                    (Raise pv, w') \<Rightarrow> (Raise pv, w')
                  | (Ret outvals, w') \<Rightarrow> (Ret (encode_results L outvals), w'))"
      by (simp add: Value_Call_body)
  next
    assume "length inargs + 1 < length ps"
    with v len assms(3) c
    have "call L H f input w = (Panic ''reflect: Call with too few input arguments'', w)"
      by (simp add: Value_Call_too_few)
    then show "Call L H f input w =
                 (([], Some (Errorf (Name f @ '': reflect: Call with too few input arguments''))),
                  w)"
      by (simp add: Call_of_call)
  }
qed

text \<open>
  The claim as stated gives a variadic callable that receives fewer arguments than it
  has fixed parameters the same arity error as any other callable. For the variadic
  \<^verbatim>\<open>sprintf\<close> of the sample, with one fixed parameter, called with no argument, the
  error is the recovered panic of \<^verbatim>\<open>reflect\<close>.
\<close>

theorem arity_check_counterexample:
  "fn_t (bound ''sprintf'' sprintf_type 14)
     = FuncOf [Prim PString, SliceOf InterfaceT] True [Prim PString] \<and>
   Unmarshal_args L0 ''[]'' = Inr [] \<and>
   Call L0 H0 (bound ''sprintf'' sprintf_type 14) ''[]'' world3
     = (([], Some (Errorf ''sprintf: reflect: Call with too few input arguments'')), world3) \<and>
   fst (Call L0 H0 (bound ''sprintf'' sprintf_type 14) ''[]'' world3)
     \<noteq> ([], Some (Errorf ''Invalid number of arguments: expected 2 got 0''))"
  by (simp add: Call_def call_def L0_def bound_def sprintf_type_def closure_def
      sample_unmarshal_args_def Value_Call_def)

theorem arity_check_witness:
  \<open>Call L0 H0 (bound ''add'' add_type 10) ''[1]'' world3
     = (([], Some (Errorf ''Invalid number of arguments: expected 2 got 1'')), world3) \<and>
   call L0 H0 (bound ''sprintf'' sprintf_type 14) ''["BANG"]'' world3
     = (Ret (''"BANG"'', None), world3) \<and>
   Call L0 H0 (bound ''sprintf'' sprintf_type 14) ''[]'' world3
     = (([], Some (Errorf ''sprintf: reflect: Call with too few input arguments'')), world3)\<close>
proof -
  have a: "Unmarshal_args L0 ''[1]'' = Inr [num 1]"
    and b: \<open>Unmarshal_args L0 ''["BANG"]'' = Inr [str ''BANG'']\<close>
    and c: "Unmarshal_args L0 ''[]'' = Inr []"
    by (simp_all add: L0_def sample_unmarshal_args_def)
  have ta: "fn_t (bound ''add'' add_type 10) = FuncOf [Prim PInt, Prim PInt] False [Prim PInt]"
    and va: "fn_v (bound ''add'' add_type 10)
               = Val (FuncOf [Prim PInt, Prim PInt] False [Prim PInt]) (DFunc 10)"
    and ts: "fn_t (bound ''sprintf'' sprintf_type 14)
               = FuncOf [Prim PString, SliceOf InterfaceT] True [Prim PString]"
    and vs: "fn_v (bound ''sprintf'' sprintf_type 14)
               = Val (FuncOf [Prim PString, SliceOf InterfaceT] True [Prim PString]) (DFunc 14)"
    by (simp_all add: bound_def closure_def add_type_def sprintf_type_def)
  have cb: "cast_args L0 [Prim PString, SliceOf InterfaceT] True 0 [str ''BANG'']
              = Ret (Inr [str ''BANG''])"
    and cc: "cast_args L0 [Prim PString, SliceOf InterfaceT] True 0 [] = Ret (Inr [])"
    by (simp_all add: arg_type_def cast_def Type_of_def str_def L0_def sample_assignable_def)
  have bb: \<open>(case H0 14 [str ''BANG''] world3 of (Raise pv, w') \<Rightarrow> (Raise pv, w')
             | (Ret outvals, w') \<Rightarrow> (Ret (encode_results L0 outvals), w'))
            = (Ret (''"BANG"'', None), world3)\<close>
    by (simp add: H0_pure L0_def sample_body_def encode_results_def sample_marshal_def str_def)
  from arity_check [OF a ta va, where invals = "[]" and H = H0 and w = world3]
    arity_check [OF b ts vs, where invals = "[str ''BANG'']" and H = H0 and w = world3]
    arity_check [OF c ts vs, where invals = "[]" and H = H0 and w = world3] cb cc bb
  show ?thesis
    by (simp add: decimal.simps digit_def bound_def)
qed

section \<open>Panics of a bound function\<close>

lemma answer_error: "answer (out, Some (Errorf m)) = Ret (0, m)"
  by (simp add: answer_def Error_def)

lemma callback_global:
  "contexts w c = Some r \<Longrightarrow> funcs (cxs w r) cname = Some f \<Longrightarrow>
   callback L H E c (context_o E c) cname args w
     = (answer (fst (Call L H f args w)), snd (Call L H f args w))"
  by (simp add: callback_def split: prod.splits)

lemma callback_object:
  "contexts w c = Some r \<Longrightarrow> i \<noteq> context_o E c \<Longrightarrow> objs (cxs w r) i = Some oref \<Longrightarrow>
   o_funcs (obs w oref) cname = Some f \<Longrightarrow>
   callback L H E c i cname args w
     = (answer (fst (Call L H f args w)), snd (Call L H f args w))"
  by (simp add: callback_def split: prod.splits)

lemma E0_facts:
  "context_o E0 h = 5"
  "JSAPI_DefineFunction E0 (cs @ [C_DefineFunction h i n]) = (n \<noteq> ''bad'')"
  "JSAPI_DefineObject E0 (cs @ [C_DefineObject h i n])
     = (if n = ''fail'' then NULL else 11 + length cs)"
  "JSAPI_DefineProperty E0 (cs @ [C_DefineProperty h i n]) = (n \<noteq> ''Bad'')"
  by (simp_all add: E0_def)

lemma NewFunc_closure:
  "NewFunc (closure raise_type k) = Ret (bound ''[anon]'' raise_type k)"
  "NewFunc (closure nop_type k) = Ret (bound ''[anon]'' nop_type k)"
  "NewFunc (closure dynamic_type k) = Ret (bound ''[anon]'' dynamic_type k)"
  by (simp_all add: NewFunc_def closure_def raise_type_def nop_type_def dynamic_type_def bound_def)

lemma DefineFunction_E0:
  "NewFunc fun = Ret (bound ''[anon]'' ty k) \<Longrightarrow> Valid (cxs w 20) \<Longrightarrow> name \<noteq> ''bad'' \<Longrightarrow>
   DefineFunction E0 20 name fun w
     = (Ret (bound name ty k),
        w\<lparr>jobs := Suc (jobs w),
          calls := calls w @ [C_DefineFunction (ptr (cxs w 20)) NULL name],
          cxs := (cxs w)(20 := (cxs w 20)
            \<lparr>funcs := (funcs (cxs w 20))(name \<mapsto> bound name ty k)\<rparr>)\<rparr>)"
  by (simp add: DefineFunction_def defineFunction_def Context_do_def api_do_def Let_def
      E0_facts bound_def)

lemma world5_facts:
  "Valid (cxs world5 20)" "contexts world5 101 = Some 20"
  "funcs (cxs world5 20) ''raise'' = Some (bound ''raise'' raise_type 11)"
  "funcs (cxs world5 20) ''add'' = Some (bound ''add'' add_type 10)"
  "ptr (cxs world5 20) = 101" "errs (cxs world5 20) = None"
  by (simp_all add: world5_def DefineFunction_E0 NewFunc_closure world3_facts)

lemma call_raise:
  \<open>call L0 H0 (bound ''raise'' raise_type 11) ''["BANG"]'' w = (Panic ''BANG'', w)\<close>
  by (simp add: call_def L0_def bound_def raise_type_def closure_def sample_unmarshal_args_def
      arg_type_def cast_def Type_of_def str_def sample_assignable_def Value_Call_def H0_pure
      sample_body_def)

lemma world3_object: "o_cx (obs world3 21) = 20" "o_id (obs world3 21) = 13"
  by (simp_all add: world3_def DefineObject_def defineObject_def Context_do_def api_do_def Let_def
      world2_eval world1_eval world0_def E0_def person_def Type_of_def Indirect_def
      struct_values_def L0_def sample_exported_def)

lemma world5_eval:
  "world5 = world3\<lparr>jobs := 4,
      calls := calls world3 @ [C_DefineFunction 101 NULL ''raise''],
      cxs := (cxs world3)(20 := (cxs world3 20)
        \<lparr>funcs := (funcs (cxs world3 20))(''raise'' \<mapsto> bound ''raise'' raise_type 11)\<rparr>)\<rparr>"
  by (simp add: world5_def DefineFunction_E0 NewFunc_closure world3_facts)

lemma world6_eval:
  "world6 = world5\<lparr>jobs := 5,
      calls := calls world5 @ [C_DefineFunction 101 13 ''raise''],
      obs := (obs world5)(21 := (obs world5 21)
        \<lparr>o_funcs := (o_funcs (obs world5 21))(''raise'' \<mapsto> bound ''raise'' raise_type 11)\<rparr>)\<rparr>"
  by (simp add: world6_def Object_DefineFunction_def defineFunction_def NewFunc_def closure_def
      raise_type_def Context_do_def api_do_def Let_def world5_eval world3_facts world3_object
      E0_def bound_def)

lemma world6_facts:
  "Valid (cxs world6 20)" "contexts world6 101 = Some 20"
  "funcs (cxs world6 20) ''raise'' = Some (bound ''raise'' raise_type 11)"
  "funcs (cxs world6 20) ''add'' = Some (bound ''add'' add_type 10)"
  "objs (cxs world6 20) 13 = Some 21"
  "o_funcs (obs world6 21) ''raise'' = Some (bound ''raise'' raise_type 11)"
  "ptr (cxs world6 20) = 101" "errs (cxs world6 20) = None"
  by (simp_all add: world6_eval world5_eval world3_facts)

lemma world7_facts:
  "Valid (cxs world7 20)" "contexts world7 101 = Some 20"
  "funcs (cxs world7 20) ''raise'' = Some (bound ''raise'' raise_type 11)"
  "funcs (cxs world7 20) ''add'' = Some (bound ''add'' add_type 10)"
  "funcs (cxs world7 20) ''mkfun'' = Some (bound ''mkfun'' nop_type 15)"
  "funcs (cxs world7 20) ''wreck'' = Some (bound ''wreck'' nop_type 17)"
  "funcs (cxs world7 20) ''hush'' = Some (bound ''hush'' nop_type 18)"
  "funcs (cxs world7 20) ''stumble'' = Some (bound ''stumble'' nop_type 19)"
  "objs (cxs world7 20) 13 = Some 21"
  "o_funcs (obs world7 21) ''raise'' = Some (bound ''raise'' raise_type 11)"
  "ptr (cxs world7 20) = 101" "errs (cxs world7 20) = None"
  by (simp_all add: world7_def DefineFunction_E0 NewFunc_closure world6_facts)

lemma world3_late: "funcs (cxs world3 20) ''late'' = None"
  by (simp add: world3_def DefineObject_def defineObject_def Context_do_def api_do_def Let_def
      world2_eval world1_eval world0_def E0_def person_def Type_of_def Indirect_def
      struct_values_def)

lemma world7_late: "funcs (cxs world7 20) ''late'' = None"
  by (simp add: world7_def DefineFunction_E0 NewFunc_closure world6_eval world5_eval
      world3_facts world3_late)

lemma world8_facts:
  "Valid (cxs world8 20)" "contexts world8 101 = Some 20"
  "funcs (cxs world8 20) ''add'' = Some (bound ''add'' add_type 10)"
  "funcs (cxs world8 20) ''late'' = Some (bound ''late'' dynamic_type 16)"
  "ptr (cxs world8 20) = 101" "errs (cxs world8 20) = None"
  by (simp_all add: world8_def DefineFunction_E0 NewFunc_closure world7_facts)

lemma world9_facts:
  "\<not> Valid (cxs world9 20)" "contexts world9 101 = Some 20"
  by (simp_all add: world9_def Destroy_def Context_do_def api_do_def Let_def world7_facts)

lemma H0_stumble: "H0 19 xs world7 = (Panic ''after'', world8)"
  by (simp add: H0_def world8_def DefineFunction_E0 NewFunc_closure world7_facts)

lemma H0_wreck: "H0 17 xs world7 = (Panic ''gone'', world9)"
  by (simp add: H0_def world9_def Destroy_def Context_do_def api_do_def Let_def world7_facts)

lemma call_stumble:
  "call L0 H0 (bound ''stumble'' nop_type 19) ''[]'' world7 = (Panic ''after'', world8)"
  by (simp add: call_def L0_def bound_def nop_type_def closure_def sample_unmarshal_args_def
      Value_Call_def H0_stumble)

lemma call_wreck:
  "call L0 H0 (bound ''wreck'' nop_type 17) ''[]'' world7 = (Panic ''gone'', world9)"
  by (simp add: call_def L0_def bound_def nop_type_def closure_def sample_unmarshal_args_def
      Value_Call_def H0_wreck)

lemma call_hush:
  "call L0 H0 (bound ''hush'' nop_type 18) ''[]'' w = (PanicNil, w)"
  by (simp add: call_def L0_def bound_def nop_type_def closure_def sample_unmarshal_args_def
      Value_Call_def H0_pure sample_body_def)

text \<open>
  Claim C5, as amended. A panic raised while a bound callable is invoked from script, and
  for which \<^verbatim>\<open>recover\<close> returns a value other than nil, is recovered by \<^verbatim>\<open>Call\<close> and
  becomes the recoverable error whose message is the bound name of the function, the
  separator \<^verbatim>\<open>: \<close> and the payload of the panic. This holds for any such panic of
  \<^verbatim>\<open>call\<close>, and so for a panic of the callable's body on the cast arguments. The
  engine's \<^verbatim>\<open>callback\<close> then answers with the flag 0 and that message, for a global
  function and for a function of an object. Neither \<^verbatim>\<open>Call\<close> nor \<^verbatim>\<open>callback\<close> changes
  the state on its own account: the state after the call is the state before it when the
  panic arose before the body ran, and the state the body left otherwise. So the Context is
  valid and usable afterwards when the body left it so, and it is not when the body
  destroyed it. A panic for which \<^verbatim>\<open>recover\<close> returns nil is recovered and not
  converted: \<^verbatim>\<open>Call\<close> returns the empty output and no error.
\<close>

theorem Call_recovers:
  "(call L H f input w = (Panic p, w') \<longrightarrow>
      Call L H f input w = (([], Some (Errorf (Name f @ '': '' @ p))), w')) \<and>
   (Unmarshal_args L input = Inr inargs \<and> fn_t f = FuncOf ps variadic rs \<and>
    fn_v f = Val (FuncOf ps variadic rs) (DFunc k) \<and>
    (if variadic then length ps \<le> length inargs + 1 else length inargs = length ps) \<and>
    cast_args L ps variadic 0 inargs = Ret (Inr invals) \<and> H k invals w = (Panic p, w') \<longrightarrow>
      Call L H f input w = (([], Some (Errorf (Name f @ '': '' @ p))), w')) \<and>
   (contexts w c = Some r \<and> funcs (cxs w r) cname = Some f \<and>
    call L H f input w = (Panic p, w') \<longrightarrow>
      callback L H E c (context_o E c) cname input w = (Ret (0, Name f @ '': '' @ p), w')) \<and>
   (contexts w c = Some r \<and> i \<noteq> context_o E c \<and> objs (cxs w r) i = Some oref \<and>
    o_funcs (obs w oref) cname = Some f \<and> call L H f input w = (Panic p, w') \<longrightarrow>
      callback L H E c i cname input w = (Ret (0, Name f @ '': '' @ p), w')) \<and>
   (call L H f input w = (Raise pv, w') \<longrightarrow>
      w' = w \<or> (\<exists>n xs. H n xs w = (Raise pv, w'))) \<and>
   (call L H f input w = (PanicNil, w') \<longrightarrow> Call L H f input w = (([], None), w'))"
proof (intro conjI impI)
  assume "call L H f input w = (Panic p, w')"
  then show "Call L H f input w = (([], Some (Errorf (Name f @ '': '' @ p))), w')"
    by (simp add: Call_of_call)
next
  assume h: "Unmarshal_args L input = Inr inargs \<and> fn_t f = FuncOf ps variadic rs \<and>
    fn_v f = Val (FuncOf ps variadic rs) (DFunc k) \<and>
    (if variadic then length ps \<le> length inargs + 1 else length inargs = length ps) \<and>
    cast_args L ps variadic 0 inargs = Ret (Inr invals) \<and> H k invals w = (Panic p, w')"
  then have len: "length invals = length inargs" using cast_args_length by blast
  from h have "variadic \<or> length inargs = length ps" by (auto split: if_splits)
  with h have "call L H f input w =
     (case Value_Call H (fn_v f) invals w of
        (Raise pv, w') \<Rightarrow> (Raise pv, w')
      | (Ret outvals, w') \<Rightarrow> (Ret (encode_results L outvals), w'))"
    using call_past_arity by blast
  moreover from h len have "Value_Call H (fn_v f) invals w = H k invals w"
    by (auto simp add: Value_Call_def split: if_splits)
  ultimately have "call L H f input w = (Panic p, w')"
    using h by simp
  then show "Call L H f input w = (([], Some (Errorf (Name f @ '': '' @ p))), w')"
    by (simp add: Call_of_call)
next
  assume "contexts w c = Some r \<and> funcs (cxs w r) cname = Some f \<and>
    call L H f input w = (Panic p, w')"
  then show "callback L H E c (context_o E c) cname input w
               = (Ret (0, Name f @ '': '' @ p), w')"
    by (simp add: callback_global Call_of_call answer_error)
next
  assume "contexts w c = Some r \<and> i \<noteq> context_o E c \<and> objs (cxs w r) i = Some oref \<and>
    o_funcs (obs w oref) cname = Some f \<and> call L H f input w = (Panic p, w')"
  then show "callback L H E c i cname input w = (Ret (0, Name f @ '': '' @ p), w')"
    by (simp add: callback_object Call_of_call answer_error)
next
  assume "call L H f input w = (Raise pv, w')"
  then show "w' = w \<or> (\<exists>n xs. H n xs w = (Raise pv, w'))"
    by (rule call_state)
next
  assume "call L H f input w = (PanicNil, w')"
  then show "Call L H f input w = (([], None), w')"
    by (simp add: Call_of_call)
qed

text \<open>
  The claim as stated says that the Context remains valid and usable after any panic of a
  callable. The body of a callable is host code and may use the Context. In the sample,
  \<^verbatim>\<open>wreck\<close> is bound to \<^verbatim>\<open>func() { cx.Destroy(); panic("gone") }\<close>. The panic is
  recovered and reported as the claim says, and the Context is destroyed afterwards: a
  later \<^verbatim>\<open>Exec\<close> or \<^verbatim>\<open>DefineFunction\<close> panics.
\<close>

theorem Call_recovers_counterexample:
  "Valid (cxs world7 20) \<and>
   funcs (cxs world7 20) ''wreck'' = Some (bound ''wreck'' nop_type 17) \<and>
   callback L0 H0 E0 101 5 ''wreck'' ''[]'' world7 = (Ret (0, ''wreck: gone''), world9) \<and>
   \<not> Valid (cxs world9 20) \<and>
   fst (Exec L0 H0 E0 20 ''1+1'' world9) = Panic ''attempt to do a destroyed Context'' \<and>
   fst (DefineFunction E0 20 ''add'' (closure add_type 10) world9)
     = Panic ''attempt to do a destroyed Context''"
proof -
  have "Name (bound ''wreck'' nop_type 17) = ''wreck''" by (simp add: bound_def)
  then have "callback L0 H0 E0 101 5 ''wreck'' ''[]'' world7 = (Ret (0, ''wreck: gone''), world9)"
    using callback_global [of world7 101 20 "''wreck''" "bound ''wreck'' nop_type 17" L0 H0 E0 "''[]''"]
      Call_of_call(2) [OF call_wreck]
    by (simp add: world7_facts E0_facts answer_error)
  moreover have "fst (Exec L0 H0 E0 20 ''1+1'' world9) = Panic ''attempt to do a destroyed Context''"
    by (simp add: Exec_def Context_do_def world9_facts)
  moreover have "fst (DefineFunction E0 20 ''add'' (closure add_type 10) world9)
     = Panic ''attempt to do a destroyed Context''"
    by (simp add: DefineFunction_def defineFunction_def NewFunc_closure_add Context_do_def
        world9_facts)
  ultimately show ?thesis by (simp add: world7_facts world9_facts)
qed

theorem Call_recovers_witness:
  \<open>Call L0 H0 (bound ''raise'' raise_type 11) ''["BANG"]'' world7
     = (([], Some (Errorf ''raise: BANG'')), world7) \<and>
   callback L0 H0 E0 101 5 ''raise'' ''["BANG"]'' world7 = (Ret (0, ''raise: BANG''), world7) \<and>
   callback L0 H0 E0 101 13 ''raise'' ''["BANG"]'' world7 = (Ret (0, ''raise: BANG''), world7) \<and>
   callback L0 H0 E0 101 5 ''stumble'' ''[]'' world7 = (Ret (0, ''stumble: after''), world8) \<and>
   world8 \<noteq> world7 \<and>
   Valid (cxs world8 20) \<and>
   callback L0 H0 E0 101 5 ''add'' ''[1,2]'' world8 = (Ret (1, ''3''), world8) \<and>
   fst (Exec L0 H0 E0 20 ''1+1'' world8) = Ret None \<and>
   Call L0 H0 (bound ''hush'' nop_type 18) ''[]'' world7 = (([], None), world7)\<close>
proof -
  have o: "context_o E0 101 = 5" by (simp add: E0_facts)
  have n: "Name (bound ''raise'' raise_type 11) = ''raise''"
    and t: "fn_t (bound ''raise'' raise_type 11) = FuncOf [Prim PString] False []"
    and v: "fn_v (bound ''raise'' raise_type 11) = Val (FuncOf [Prim PString] False []) (DFunc 11)"
    and ns: "Name (bound ''stumble'' nop_type 19) = ''stumble''"
    by (simp_all add: bound_def closure_def raise_type_def)
  have u: \<open>Unmarshal_args L0 ''["BANG"]'' = Inr [str ''BANG'']\<close>
    by (simp add: L0_def sample_unmarshal_args_def)
  have c: "cast_args L0 [Prim PString] False 0 [str ''BANG''] = Ret (Inr [str ''BANG''])"
    by (simp add: arg_type_def cast_def Type_of_def str_def L0_def sample_assignable_def)
  have b: "H0 11 [str ''BANG''] world7 = (Panic ''BANG'', world7)"
    by (simp add: H0_pure sample_body_def str_def)
  note th = Call_recovers [where L = L0 and H = H0 and f = "bound ''raise'' raise_type 11"
      and p = "''BANG''" and w = world7 and w' = world7 and c = 101 and r = 20
      and cname = "''raise''" and E = E0 and input = \<open>''["BANG"]''\<close>
      and inargs = "[str ''BANG'']" and ps = "[Prim PString]" and variadic = False and rs = "[]"
      and k = 11 and invals = "[str ''BANG'']" and i = 13 and oref = 21 and pv = "Some ''BANG''"]
  note ts = Call_recovers [where L = L0 and H = H0 and f = "bound ''stumble'' nop_type 19"
      and p = "''after''" and w = world7 and w' = world8 and c = 101 and r = 20
      and cname = "''stumble''" and E = E0 and input = "''[]''"
      and inargs = "[]" and ps = "[]" and variadic = False and rs = "[]"
      and k = 19 and invals = "[]" and i = 13 and oref = 21 and pv = "Some ''after''"]
  note tn = Call_recovers [where L = L0 and H = H0 and f = "bound ''hush'' nop_type 18"
      and p = "''none''" and w = world7 and w' = world7 and c = 101 and r = 20
      and cname = "''hush''" and E = E0 and input = "''[]''"
      and inargs = "[]" and ps = "[]" and variadic = False and rs = "[]"
      and k = 18 and invals = "[]" and i = 13 and oref = 21 and pv = None]
  from th u t v c b
  have 1: \<open>Call L0 H0 (bound ''raise'' raise_type 11) ''["BANG"]'' world7
            = (([], Some (Errorf ''raise: BANG'')), world7)\<close>
    by (simp add: n)
  from th call_raise [of world7] world7_facts o n
  have 2: \<open>callback L0 H0 E0 101 5 ''raise'' ''["BANG"]'' world7 = (Ret (0, ''raise: BANG''), world7)\<close>
    and 3: \<open>callback L0 H0 E0 101 13 ''raise'' ''["BANG"]'' world7 = (Ret (0, ''raise: BANG''), world7)\<close>
    by simp_all
  from ts call_stumble world7_facts o ns
  have 4: "callback L0 H0 E0 101 5 ''stumble'' ''[]'' world7 = (Ret (0, ''stumble: after''), world8)"
    by simp
  have "funcs (cxs world7 20) ''late'' \<noteq> funcs (cxs world8 20) ''late''"
    by (simp add: world8_facts world7_late)
  then have 5: "world8 \<noteq> world7" by auto
  have 6: "callback L0 H0 E0 101 5 ''add'' ''[1,2]'' world8 = (Ret (1, ''3''), world8)"
    using callback_global [of world8 101 20 "''add''" "bound ''add'' add_type 10" L0 H0 E0 "''[1,2]''"]
    by (simp add: world8_facts o Call_add answer_def)
  have 7: "fst (Exec L0 H0 E0 20 ''1+1'' world8) = Ret None"
    by (simp add: Exec_def Context_do_def api_do_def Let_def world8_facts E0_def)
  from tn call_hush [of world7]
  have 8: "Call L0 H0 (bound ''hush'' nop_type 18) ''[]'' world7 = (([], None), world7)"
    by simp
  from 1 2 3 4 5 6 7 8 world8_facts show ?thesis by simp
qed

text \<open>
  A body that defines a function in its own Context, as \<^verbatim>\<open>mkfun\<close> does in
  \<^verbatim>\<open>TestDeadlockCondition\<close>: the definition is in force when the evaluation returns.
\<close>

lemma E0_eval_facts:
  "JSAPI_Eval E0 (cs @ [C_Eval h ''mkfun()'' fn]) = ([CallFn h 5 ''mkfun'' ''[]''], True)"
  "JSAPI_EvalJSON E0 (cs @ [C_EvalJSON h ''dynamic()'' fn])
     = ([CallFn h 5 ''dynamic'' ''[]''], Some ''true'')"
  by (simp_all add: E0_def)

lemma call_mkfun:
  "Valid (cxs w 20) \<Longrightarrow>
   call L0 H0 (bound ''mkfun'' nop_type 15) ''[]'' w
     = (Ret ([], None), snd (DefineFunction E0 20 ''dynamic'' (closure dynamic_type 16) w))"
proof -
  assume "Valid (cxs w 20)"
  then have "H0 15 [] w = (Ret [], snd (DefineFunction E0 20 ''dynamic'' (closure dynamic_type 16) w))"
    by (simp add: H0_def DefineFunction_E0 NewFunc_closure)
  then show ?thesis
    by (simp add: call_def L0_def bound_def nop_type_def closure_def sample_unmarshal_args_def
        Value_Call_def encode_results_def)
qed

lemma call_dynamic:
  "call L0 H0 (bound ''dynamic'' dynamic_type 16) ''[]'' w = (Ret (''true'', None), w)"
  by (simp add: call_def L0_def bound_def dynamic_type_def closure_def sample_unmarshal_args_def
      Value_Call_def H0_pure sample_body_def encode_results_def sample_marshal_def)

lemma reentrant_definition:
  "fst (Exec L0 H0 E0 20 ''mkfun()'' world7) = Ret None"
  "funcs (cxs (snd (Exec L0 H0 E0 20 ''mkfun()'' world7)) 20) ''dynamic''
     = Some (bound ''dynamic'' dynamic_type 16)"
  "fst (Eval L0 H0 E0 20 ''dynamic()'' (snd (Exec L0 H0 E0 20 ''mkfun()'' world7)))
     = Ret (Some (Val (Prim PBool) (DBool True)), None)"
proof -
  let ?w1 = "world7\<lparr>jobs := Suc (jobs world7),
                     calls := calls world7 @ [C_Eval 101 ''mkfun()'' ''eval'']\<rparr>"
  let ?w2 = "snd (DefineFunction E0 20 ''dynamic'' (closure dynamic_type 16) ?w1)"
  have c1: "callback L0 H0 E0 101 5 ''mkfun'' ''[]'' ?w1 = (Ret (1, []), ?w2)"
    using callback_global [of ?w1 101 20 "''mkfun''" "bound ''mkfun'' nop_type 15" L0 H0 E0 "''[]''"]
      Call_of_call(1) [OF call_mkfun [of ?w1]]
    by (simp add: world7_facts E0_facts answer_def)
  have e: "Exec L0 H0 E0 20 ''mkfun()'' world7 = (Ret None, ?w2)"
    using c1 by (simp add: Exec_def Context_do_def api_do_def Let_def world7_facts E0_eval_facts)
  have f2: "Valid (cxs ?w2 20)" "contexts ?w2 101 = Some 20" "ptr (cxs ?w2 20) = 101"
    "funcs (cxs ?w2 20) ''dynamic'' = Some (bound ''dynamic'' dynamic_type 16)"
    by (simp_all add: DefineFunction_E0 NewFunc_closure world7_facts)
  let ?w3 = "?w2\<lparr>jobs := Suc (jobs ?w2),
                  calls := calls ?w2 @ [C_EvalJSON 101 ''dynamic()'' ''eval'']\<rparr>"
  have c2: "callback L0 H0 E0 101 5 ''dynamic'' ''[]'' ?w3 = (Ret (1, ''true''), ?w3)"
    using callback_global [of ?w3 101 20 "''dynamic''" "bound ''dynamic'' dynamic_type 16" L0 H0 E0
        "''[]''"] Call_of_call(1) [OF call_dynamic [of ?w3]] f2
    by (simp add: E0_facts answer_def)
  have u: "Unmarshal_any L0 ''true'' = Inr (Val (Prim PBool) (DBool True))"
    by (simp add: L0_def sample_unmarshal_any_def)
  from e show "fst (Exec L0 H0 E0 20 ''mkfun()'' world7) = Ret None" by simp
  from e f2 show "funcs (cxs (snd (Exec L0 H0 E0 20 ''mkfun()'' world7)) 20) ''dynamic''
     = Some (bound ''dynamic'' dynamic_type 16)" by simp
  have "fst (Eval L0 H0 E0 20 ''dynamic()'' ?w2) = Ret (Some (Val (Prim PBool) (DBool True)), None)"
    using c2 f2 u by (simp add: Eval_def Context_do_def api_do_def Let_def E0_eval_facts)
  with e show "fst (Eval L0 H0 E0 20 ''dynamic()'' (snd (Exec L0 H0 E0 20 ''mkfun()'' world7)))
     = Ret (Some (Val (Prim PBool) (DBool True)), None)" by simp
qed

section \<open>The encoding of results\<close>

lemma Marshal_slice_all:
  "list_all (\<lambda>r. snd (Marshal L r) = None) xs \<Longrightarrow>
   Marshal_slice L xs = (''['' @ join '','' (map (\<lambda>r. fst (Marshal L r)) xs) @ '']'', None)"
  by (simp add: Marshal_slice_def marshal_each_all)

lemma encode_results_cases:
  "encode_results L [] = ([], None)"
  "encode_results L [r] = Marshal L r"
  "2 \<le> length outvals \<Longrightarrow> encode_results L outvals = Marshal_slice L outvals"
  by (auto simp add: encode_results_def split: list.splits)

text \<open>
  Claim C7. When the invocation of a bound callable succeeds (the arguments decode, the
  count is accepted, every cast succeeds, and the call returns its results), \<^verbatim>\<open>Call\<close>
  returns: the empty string and no error for no result; for one result, what
  \<^verbatim>\<open>json.Marshal\<close> gives for it; for two or more results that each encode, the JSON array
  of their encodings in the order of the results. The state is the one the call left.
\<close>

theorem results_encoding:
  assumes "Unmarshal_args L input = Inr inargs" and "fn_t f = FuncOf ps variadic rs"
    and "variadic \<or> length inargs = length ps"
    and "cast_args L ps variadic 0 inargs = Ret (Inr invals)"
    and "Value_Call H (fn_v f) invals w = (Ret outvals, w')"
  shows "(outvals = [] \<longrightarrow> Call L H f input w = (([], None), w')) \<and>
         (outvals = [r] \<longrightarrow> Call L H f input w = (Marshal L r, w')) \<and>
         (2 \<le> length outvals \<and> list_all (\<lambda>r. snd (Marshal L r) = None) outvals \<longrightarrow>
            Call L H f input w =
              ((''['' @ join '','' (map (\<lambda>r. fst (Marshal L r)) outvals) @ '']'', None), w'))"
proof -
  from call_past_arity [OF assms(1-4), of H w] assms(5)
  have "call L H f input w = (Ret (encode_results L outvals), w')"
    by simp
  then have "Call L H f input w = (encode_results L outvals, w')"
    by (rule Call_of_call(1))
  then show ?thesis
    by (auto simp add: encode_results_cases Marshal_slice_all)
qed

theorem results_encoding_witness:
  "Call L0 H0 (bound ''nop'' nop_type 12) ''[]'' world3 = (([], None), world3) \<and>
   Call L0 H0 (bound ''add'' add_type 10) ''[1,2]'' world3 = ((''3'', None), world3) \<and>
   Call L0 H0 (bound ''divmod'' divmod_type 13) ''[7,2]'' world3 = ((''[3,1]'', None), world3)"
proof -
  have u: "Unmarshal_args L0 ''[]'' = Inr []" "Unmarshal_args L0 ''[1,2]'' = Inr [num 1, num 2]"
    "Unmarshal_args L0 ''[7,2]'' = Inr [num 7, num 2]"
    by (simp_all add: L0_def sample_unmarshal_args_def)
  have t: "fn_t (bound ''nop'' nop_type 12) = FuncOf [] False []"
    "fn_t (bound ''add'' add_type 10) = FuncOf [Prim PInt, Prim PInt] False [Prim PInt]"
    "fn_t (bound ''divmod'' divmod_type 13)
       = FuncOf [Prim PInt, Prim PInt] False [Prim PInt, Prim PInt]"
    by (simp_all add: bound_def nop_type_def add_type_def divmod_type_def)
  have c: "cast_args L0 [] False 0 [] = Ret (Inr [])"
    "cast_args L0 [Prim PInt, Prim PInt] False 0 [num 1, num 2]
       = Ret (Inr [Val (Prim PInt) (DNum 1), Val (Prim PInt) (DNum 2)])"
    "cast_args L0 [Prim PInt, Prim PInt] False 0 [num 7, num 2]
       = Ret (Inr [Val (Prim PInt) (DNum 7), Val (Prim PInt) (DNum 2)])"
    by (simp_all add: arg_type_def cast_def Type_of_def num_def L0_def sample_assignable_def
        sample_convertible_def sample_convert_def)
  have v: "Value_Call H0 (fn_v (bound ''nop'' nop_type 12)) [] world3 = (Ret [], world3)"
    "Value_Call H0 (fn_v (bound ''add'' add_type 10))
       [Val (Prim PInt) (DNum 1), Val (Prim PInt) (DNum 2)] world3
       = (Ret [Val (Prim PInt) (DNum 3)], world3)"
    "Value_Call H0 (fn_v (bound ''divmod'' divmod_type 13))
       [Val (Prim PInt) (DNum 7), Val (Prim PInt) (DNum 2)] world3
       = (Ret [Val (Prim PInt) (DNum 3), Val (Prim PInt) (DNum 1)], world3)"
    by (simp_all add: Value_Call_def bound_def closure_def nop_type_def add_type_def
        divmod_type_def H0_pure sample_body_def)
  have m: "Marshal L0 (Val (Prim PInt) (DNum 3)) = (''3'', None)"
    "Marshal L0 (Val (Prim PInt) (DNum 1)) = (''1'', None)"
    by (simp_all add: L0_def sample_marshal_def decimal.simps digit_def)
  from results_encoding [OF u(1) t(1) _ c(1) v(1), of Zero]
  have "Call L0 H0 (bound ''nop'' nop_type 12) ''[]'' world3 = (([], None), world3)" by simp
  moreover from results_encoding [OF u(2) t(2) _ c(2) v(2), of "Val (Prim PInt) (DNum 3)"] m
  have "Call L0 H0 (bound ''add'' add_type 10) ''[1,2]'' world3 = ((''3'', None), world3)" by simp
  moreover from results_encoding [OF u(3) t(3) _ c(3) v(3), of Zero] m
  have "Call L0 H0 (bound ''divmod'' divmod_type 13) ''[7,2]'' world3
          = ((''[3,1]'', None), world3)" by simp
  ultimately show ?thesis by simp
qed

section \<open>Setting a property\<close>

lemma prop_set_failed_cast:
  assumes "Unmarshal_any L injson = Inr x" and "cast L x (p_t p) = Ret (xv, Some e)"
    and "CanSet p" and "p_v p = Val (p_t p) d"
  shows "\<exists>m. prop_set L p injson = Panic m"
proof -
  from cast_error_not_assignable [OF assms(2)]
  obtain yt yd where y: "xv = Val yt yd" and na: "\<not> AssignableTo L yt (p_t p)"
    by blast
  then show ?thesis
    using assms by (simp add: prop_set_def Value_Set_def)
qed

text \<open>
  Claim C4. A property set is to cast the decoded value to the field's type and to
  return the descriptive error of the casting rule when the cast fails. \<^verbatim>\<open>set\<close> stores
  the error of \<^verbatim>\<open>cast\<close> in \<^verbatim>\<open>err\<close> and never reads it. On the sample field \<^verbatim>\<open>Age\<close> of
  type \<^verbatim>\<open>int\<close>, which is settable, the JSON string \<^verbatim>\<open>"abc"\<close> decodes, \<^verbatim>\<open>cast\<close> returns
  the error \<^verbatim>\<open>cannot cast string to int\<close>, and \<^verbatim>\<open>set\<close> goes on to \<^verbatim>\<open>p.v.Set\<close>, which
  panics: no error is returned, and nothing recovers the panic between \<^verbatim>\<open>set\<close> and the
  engine. On the same field made unsettable the error returned is the one of the settable
  check. The sibling path \<^verbatim>\<open>call\<close> tests the error of \<^verbatim>\<open>cast\<close> and returns it.
\<close>

theorem prop_set_drops_cast_error:
  \<open>Unmarshal_any L0 ''"abc"'' = Inr (str ''abc'') \<and>
   cast L0 (str ''abc'') (Prim PInt) = Ret (str ''abc'', Some (Errorf ''cannot cast string to int'')) \<and>
   CanSet age_prop \<and>
   prop_set L0 age_prop ''"abc"''
     = Panic ''reflect.Set: value of type string is not assignable to type int'' \<and>
   prop_set L0 (age_prop\<lparr>p_addressable := False\<rparr>) ''"abc"''
     = Ret (([], Some (Errorf ''property Age is not settable'')),
            age_prop\<lparr>p_addressable := False\<rparr>) \<and>
   setprop L0 101 13 ''Age'' ''"abc"'' world3
     = (Panic ''reflect.Set: value of type string is not assignable to type int'', world3) \<and>
   call L0 H0 (bound ''add'' add_type 10) ''["x",2]'' world3
     = (Ret ([], Some (Errorf ''cannot cast string to int'')), world3)\<close>
proof -
  have p: \<open>prop_set L0 age_prop ''"abc"''
     = Panic ''reflect.Set: value of type string is not assignable to type int''\<close>
    by (simp add: prop_set_def age_prop_def L0_def sample_unmarshal_any_def cast_def str_def
      Type_of_def sample_assignable_def sample_convertible_def CanSet_def Value_Set_def)
  have s: \<open>setprop L0 101 13 ''Age'' ''"abc"'' world3
     = (Panic ''reflect.Set: value of type string is not assignable to type int'', world3)\<close>
    by (simp add: setprop_def world3_facts p)
  have r: \<open>Unmarshal_any L0 ''"abc"'' = Inr (str ''abc'') \<and>
   cast L0 (str ''abc'') (Prim PInt) = Ret (str ''abc'', Some (Errorf ''cannot cast string to int'')) \<and>
   CanSet age_prop \<and>
   prop_set L0 (age_prop\<lparr>p_addressable := False\<rparr>) ''"abc"''
     = Ret (([], Some (Errorf ''property Age is not settable'')),
            age_prop\<lparr>p_addressable := False\<rparr>) \<and>
   call L0 H0 (bound ''add'' add_type 10) ''["x",2]'' world3
     = (Ret ([], Some (Errorf ''cannot cast string to int'')), world3)\<close>
    by (simp add: prop_set_def age_prop_def L0_def sample_unmarshal_any_def cast_def str_def
      Type_of_def sample_assignable_def sample_convertible_def CanSet_def Value_Set_def
      call_def bound_def add_type_def sample_unmarshal_args_def arg_type_def)
  from p s r show ?thesis by simp
qed

section \<open>Definition-time errors\<close>

lemma acceptable_set:
  "acceptable k = (k \<in> {KBool, KInt, KInt8, KInt16, KInt32, KInt64, KUint, KUint8, KUint16,
      KUint32, KUint64, KFloat32, KFloat64, KString, KMap, KSlice, KInterface})"
  by (cases k) simp_all

lemma check_inargs_ok: "check_inargs ps = Ret () \<longleftrightarrow> list_all (\<lambda>p. acceptable (Kind p)) ps"
  by (induction ps) auto

lemma check_inargs_bad:
  "p \<in> set ps \<Longrightarrow> \<not> acceptable (Kind p) \<Longrightarrow>
   check_inargs ps = Panic ''X is not a valid argument type for javascript interop''"
  by (induction ps) auto

lemma NewFunc_not_func:
  "Kind ty \<noteq> KFunc \<Longrightarrow> NewFunc (Val ty d) = Panic ''X is not a valid function type''"
  by (cases ty) (simp_all add: NewFunc_def)

lemma NewFunc_bad_arg:
  "p \<in> set ps \<Longrightarrow> \<not> acceptable (Kind p) \<Longrightarrow>
   NewFunc (Val (FuncOf ps variadic rs) d)
     = Panic ''X is not a valid argument type for javascript interop''"
  by (simp add: NewFunc_def check_inargs_bad)

lemma NewFunc_ok:
  "list_all (\<lambda>p. acceptable (Kind p)) ps \<Longrightarrow>
   NewFunc (Val (FuncOf ps variadic rs) d)
     = Ret \<lparr>Name = ''[anon]'', fn_v = Val (FuncOf ps variadic rs) d, fn_t = FuncOf ps variadic rs\<rparr>"
  using check_inargs_ok [of ps] by (simp add: NewFunc_def)

lemma defineFunction_NewFunc_panic:
  "NewFunc callable = Raise pv \<Longrightarrow> defineFunction E r name callable i w = (Raise pv, w)"
  by (simp add: defineFunction_def)

lemma defineFunction_refused:
  "Valid (cxs w r) \<Longrightarrow> NewFunc callable = Ret f \<Longrightarrow>
   \<not> JSAPI_DefineFunction E (calls w @ [C_DefineFunction (ptr (cxs w r)) i name]) \<Longrightarrow>
   fst (defineFunction E r name callable i w) = Panic ''failed to define function''"
  by (simp add: defineFunction_def Context_do_def api_do_def Let_def)

lemma define_fields_result:
  "fst (define_fields L E r oref a fs vs w) =
     (if \<forall>j<length fs. JSAPI_DefineProperty E
            (calls w @ map (\<lambda>f. C_DefineProperty (ptr (cxs w r)) (o_id (obs w oref)) (fst f))
                        (take (Suc j) fs))
      then Ret () else Panic ''failed to define property'')"
proof (induction fs arbitrary: vs w)
  case Nil
  then show ?case by simp
next
  case (Cons f fs)
  obtain n ty where f: "f = (n, ty)" by (cases f)
  let ?c = "C_DefineProperty (ptr (cxs w r)) (o_id (obs w oref)) n"
  show ?case
  proof (cases "JSAPI_DefineProperty E (calls w @ [?c])")
    case False
    then have "\<not> (\<forall>j<length (f # fs). JSAPI_DefineProperty E
            (calls w @ map (\<lambda>f. C_DefineProperty (ptr (cxs w r)) (o_id (obs w oref)) (fst f))
                        (take (Suc j) (f # fs))))"
      using f by (auto intro: exI [of _ 0])
    with False f show ?thesis by (simp add: Let_def)
  next
    case True
    have "(\<forall>j<length (f # fs). JSAPI_DefineProperty E
            (calls w @ map (\<lambda>f. C_DefineProperty (ptr (cxs w r)) (o_id (obs w oref)) (fst f))
                        (take (Suc j) (f # fs))))
       \<longleftrightarrow> (\<forall>j<length fs. JSAPI_DefineProperty E
            (calls w @ ?c # map (\<lambda>f. C_DefineProperty (ptr (cxs w r)) (o_id (obs w oref)) (fst f))
                        (take (Suc j) fs)))"
      using True f by (auto simp add: less_Suc_eq_0_disj)
    with True f Cons.IH show ?thesis by (simp add: Let_def)
  qed
qed

lemma defineObject_not_struct:
  "Valid (cxs w r) \<Longrightarrow> Kind pt \<noteq> KStruct \<Longrightarrow> Kind pt \<noteq> KPtr \<Longrightarrow>
   fst (defineObject L E r name (Val pt pd) i w)
     = Panic ''proxy object must be a kind of struct or pointer to a struct''"
  by (cases pt)
    (simp_all add: defineObject_def Context_do_def api_do_def Let_def Type_of_def)

lemma defineObject_ptr_not_struct:
  "Valid (cxs w r) \<Longrightarrow> Kind it \<noteq> KStruct \<Longrightarrow>
   fst (defineObject L E r name (Val (PtrTo e) (DPtr (Val it pd))) i w)
     = Panic ''proxy object must be a kind of struct or pointer to a struct''"
  by (cases it)
    (simp_all add: defineObject_def Context_do_def api_do_def Let_def Type_of_def Indirect_def)

lemma fst_case_res [simp]:
  "fst (case p of (Raise pv, w) \<Rightarrow> (Raise pv, w) | (Ret u, w) \<Rightarrow> (Ret y, w))
     = (case fst p of Raise pv \<Rightarrow> Raise pv | Ret u \<Rightarrow> Ret y)"
  by (cases p) (simp split: res.splits)

lemma defineObject_struct:
  assumes "Valid (cxs w r)"
    and "proxy = Val (StructOf fs) pd \<or> proxy = Val (PtrTo e) (DPtr (Val (StructOf fs) pd))"
  shows "fst (defineObject L E r name proxy i w) =
     (if \<forall>j<length fs. JSAPI_DefineProperty E
            (calls w @ C_DefineObject (ptr (cxs w r)) i name #
               map (\<lambda>f. C_DefineProperty (ptr (cxs w r))
                      (JSAPI_DefineObject E (calls w @ [C_DefineObject (ptr (cxs w r)) i name]))
                      (fst f))
                   (take (Suc j) fs))
      then Ret (heap_next w) else Panic ''failed to define property'')"
  using assms
  by (auto simp add: defineObject_def Context_do_def api_do_def Let_def Type_of_def Indirect_def
      define_fields_result)

lemma defineObject_property_refused:
  assumes "Valid (cxs w r)"
    and "proxy = Val (StructOf fs) pd \<or> proxy = Val (PtrTo e) (DPtr (Val (StructOf fs) pd))"
    and "j < length fs"
    and "\<not> JSAPI_DefineProperty E
        (calls w @ C_DefineObject (ptr (cxs w r)) i name #
           map (\<lambda>f. C_DefineProperty (ptr (cxs w r))
                  (JSAPI_DefineObject E (calls w @ [C_DefineObject (ptr (cxs w r)) i name]))
                  (fst f))
               (take (Suc j) fs))"
  shows "fst (defineObject L E r name proxy i w) = Panic ''failed to define property''"
proof -
  from assms(3,4) have "\<not> (\<forall>j<length fs. JSAPI_DefineProperty E
            (calls w @ C_DefineObject (ptr (cxs w r)) i name #
               map (\<lambda>f. C_DefineProperty (ptr (cxs w r))
                      (JSAPI_DefineObject E (calls w @ [C_DefineObject (ptr (cxs w r)) i name]))
                      (fst f))
                   (take (Suc j) fs)))"
    by blast
  with defineObject_struct [OF assms(1,2), of L E name i] show ?thesis by simp
qed

lemma defineObject_nil_proxy:
  assumes "Valid (cxs w r)"
  shows "defineObject L E r name Zero i w =
     (Ret (heap_next w),
      w\<lparr>obs := (obs w)(heap_next w :=
             \<lparr>o_id = JSAPI_DefineObject E (calls w @ [C_DefineObject (ptr (cxs w r)) i name]),
              o_cx = r, o_funcs = Map.empty, o_props = Map.empty, o_proxy = Zero\<rparr>),
        heap_next := Suc (heap_next w),
        jobs := Suc (jobs w),
        calls := calls w @ [C_DefineObject (ptr (cxs w r)) i name],
        cxs := (cxs w)(r := (cxs w r)\<lparr>objs := (objs (cxs w r))
             (JSAPI_DefineObject E (calls w @ [C_DefineObject (ptr (cxs w r)) i name])
                \<mapsto> heap_next w)\<rparr>)\<rparr>)"
  using assms by (simp add: defineObject_def Context_do_def api_do_def Let_def)

text \<open>
  Claim C8. The definition-time errors that the code detects are panics, never returned
  errors. \<^verbatim>\<open>NewFunc\<close> panics on a nil callable, on a value whose kind is not
  \<^verbatim>\<open>func\<close>, and on a callable with a parameter whose kind is outside the acceptable set:
  bool, the five int and the five uint widths, float32, float64, string, map, slice and
  interface. \<^verbatim>\<open>DefineFunction\<close> on a Context or an Object raises that panic, and on a
  valid Context it panics when the engine refuses \<^verbatim>\<open>JSAPI_DefineFunction\<close>.
  \<^verbatim>\<open>DefineObject\<close> on a valid Context or on an Object of one panics when the proxy is
  neither a struct nor a pointer (the proxy is not nil), when it is a pointer to a value
  that is not a struct, and, for a struct or a pointer to one, when the engine refuses
  \<^verbatim>\<open>JSAPI_DefineProperty\<close> for one of its fields.

  One low-level define call is not covered. \<^verbatim>\<open>JSAPI_DefineObject\<close> returns the handle
  of the new object, and \<^verbatim>\<open>defineObject\<close> stores what it returns in \<^verbatim>\<open>o.id\<close> and
  registers the Object under it in \<^verbatim>\<open>cx.objs\<close> with no test, where the two sibling
  calls test the status. So whatever the engine returns, \<^verbatim>\<open>NULL\<close> for a failure
  included, \<^verbatim>\<open>DefineObject\<close> with a nil proxy returns an Object and does not panic, and
  with a struct proxy it goes on to define the properties on that handle and returns the
  Object when the engine accepts them.
\<close>

theorem definition_time_errors:
  "NewFunc Zero = Panic ''invalid function type'' \<and>
   (Kind ty \<noteq> KFunc \<longrightarrow> NewFunc (Val ty d) = Panic ''X is not a valid function type'') \<and>
   (p \<in> set ps \<and> \<not> acceptable (Kind p) \<longrightarrow>
      NewFunc (Val (FuncOf ps variadic rs) d)
        = Panic ''X is not a valid argument type for javascript interop'') \<and>
   acceptable k = (k \<in> {KBool, KInt, KInt8, KInt16, KInt32, KInt64, KUint, KUint8, KUint16,
      KUint32, KUint64, KFloat32, KFloat64, KString, KMap, KSlice, KInterface}) \<and>
   (NewFunc callable = Raise pv \<longrightarrow>
      DefineFunction E r name callable w = (Raise pv, w) \<and>
      Object_DefineFunction E oref name callable w = (Raise pv, w)) \<and>
   (Valid (cxs w r) \<and> NewFunc callable = Ret f \<and>
    \<not> JSAPI_DefineFunction E (calls w @ [C_DefineFunction (ptr (cxs w r)) NULL name]) \<longrightarrow>
      fst (DefineFunction E r name callable w) = Panic ''failed to define function'') \<and>
   (o_cx (obs w oref) = r \<and> Valid (cxs w r) \<and> NewFunc callable = Ret f \<and>
    \<not> JSAPI_DefineFunction E
        (calls w @ [C_DefineFunction (ptr (cxs w r)) (o_id (obs w oref)) name]) \<longrightarrow>
      fst (Object_DefineFunction E oref name callable w) = Panic ''failed to define function'') \<and>
   (Valid (cxs w r) \<and> Kind pt \<noteq> KStruct \<and> Kind pt \<noteq> KPtr \<longrightarrow>
      fst (DefineObject L E r name (Val pt pd) w)
        = Panic ''proxy object must be a kind of struct or pointer to a struct'') \<and>
   (o_cx (obs w oref) = r \<and> Valid (cxs w r) \<and> Kind pt \<noteq> KStruct \<and> Kind pt \<noteq> KPtr \<longrightarrow>
      fst (Object_DefineObject L E oref name (Val pt pd) w)
        = Panic ''proxy object must be a kind of struct or pointer to a struct'') \<and>
   (Valid (cxs w r) \<and> Kind it \<noteq> KStruct \<longrightarrow>
      fst (DefineObject L E r name (Val (PtrTo e) (DPtr (Val it pd))) w)
        = Panic ''proxy object must be a kind of struct or pointer to a struct'') \<and>
   (o_cx (obs w oref) = r \<and> Valid (cxs w r) \<and> Kind it \<noteq> KStruct \<longrightarrow>
      fst (Object_DefineObject L E oref name (Val (PtrTo e) (DPtr (Val it pd))) w)
        = Panic ''proxy object must be a kind of struct or pointer to a struct'') \<and>
   (Valid (cxs w r) \<and>
    (proxy = Val (StructOf fs) pd \<or> proxy = Val (PtrTo e) (DPtr (Val (StructOf fs) pd))) \<and>
    j < length fs \<and>
    \<not> JSAPI_DefineProperty E
        (calls w @ C_DefineObject (ptr (cxs w r)) NULL name #
           map (\<lambda>f. C_DefineProperty (ptr (cxs w r))
                  (JSAPI_DefineObject E (calls w @ [C_DefineObject (ptr (cxs w r)) NULL name]))
                  (fst f))
               (take (Suc j) fs)) \<longrightarrow>
      fst (DefineObject L E r name proxy w) = Panic ''failed to define property'') \<and>
   (o_cx (obs w oref) = r \<and> Valid (cxs w r) \<and>
    (proxy = Val (StructOf fs) pd \<or> proxy = Val (PtrTo e) (DPtr (Val (StructOf fs) pd))) \<and>
    j < length fs \<and>
    \<not> JSAPI_DefineProperty E
        (calls w @ C_DefineObject (ptr (cxs w r)) (o_id (obs w oref)) name #
           map (\<lambda>f. C_DefineProperty (ptr (cxs w r))
                  (JSAPI_DefineObject E
                     (calls w @ [C_DefineObject (ptr (cxs w r)) (o_id (obs w oref)) name]))
                  (fst f))
               (take (Suc j) fs)) \<longrightarrow>
      fst (Object_DefineObject L E oref name proxy w) = Panic ''failed to define property'') \<and>
   (Valid (cxs w r) \<longrightarrow>
      fst (DefineObject L E r name Zero w) = Ret (heap_next w) \<and>
      o_id (obs (snd (DefineObject L E r name Zero w)) (heap_next w))
        = JSAPI_DefineObject E (calls w @ [C_DefineObject (ptr (cxs w r)) NULL name]) \<and>
      objs (cxs (snd (DefineObject L E r name Zero w)) r)
          (JSAPI_DefineObject E (calls w @ [C_DefineObject (ptr (cxs w r)) NULL name]))
        = Some (heap_next w)) \<and>
   (o_cx (obs w oref) = r \<and> Valid (cxs w r) \<longrightarrow>
      fst (Object_DefineObject L E oref name Zero w) = Ret (heap_next w) \<and>
      o_id (obs (snd (Object_DefineObject L E oref name Zero w)) (heap_next w))
        = JSAPI_DefineObject E
            (calls w @ [C_DefineObject (ptr (cxs w r)) (o_id (obs w oref)) name]) \<and>
      objs (cxs (snd (Object_DefineObject L E oref name Zero w)) r)
          (JSAPI_DefineObject E
             (calls w @ [C_DefineObject (ptr (cxs w r)) (o_id (obs w oref)) name]))
        = Some (heap_next w)) \<and>
   (Valid (cxs w r) \<and>
    (proxy = Val (StructOf fs) pd \<or> proxy = Val (PtrTo e) (DPtr (Val (StructOf fs) pd))) \<and>
    (\<forall>j<length fs. JSAPI_DefineProperty E
        (calls w @ C_DefineObject (ptr (cxs w r)) NULL name #
           map (\<lambda>f. C_DefineProperty (ptr (cxs w r))
                  (JSAPI_DefineObject E (calls w @ [C_DefineObject (ptr (cxs w r)) NULL name]))
                  (fst f))
               (take (Suc j) fs))) \<longrightarrow>
      fst (DefineObject L E r name proxy w) = Ret (heap_next w))"
proof (intro conjI impI)
  show "NewFunc Zero = Panic ''invalid function type''" by (simp add: NewFunc_def)
  show "acceptable k = (k \<in> {KBool, KInt, KInt8, KInt16, KInt32, KInt64, KUint, KUint8, KUint16,
      KUint32, KUint64, KFloat32, KFloat64, KString, KMap, KSlice, KInterface})"
    by (rule acceptable_set)
next
  assume "Kind ty \<noteq> KFunc"
  then show "NewFunc (Val ty d) = Panic ''X is not a valid function type''"
    by (rule NewFunc_not_func)
next
  assume "p \<in> set ps \<and> \<not> acceptable (Kind p)"
  then show "NewFunc (Val (FuncOf ps variadic rs) d)
        = Panic ''X is not a valid argument type for javascript interop''"
    using NewFunc_bad_arg by blast
next
  assume "NewFunc callable = Raise pv"
  then show "DefineFunction E r name callable w = (Raise pv, w)"
    and "Object_DefineFunction E oref name callable w = (Raise pv, w)"
    by (simp_all add: DefineFunction_def Object_DefineFunction_def defineFunction_NewFunc_panic)
next
  assume "Valid (cxs w r) \<and> NewFunc callable = Ret f \<and>
    \<not> JSAPI_DefineFunction E (calls w @ [C_DefineFunction (ptr (cxs w r)) NULL name])"
  then have "fst (defineFunction E r name callable NULL w) = Panic ''failed to define function''"
    using defineFunction_refused by blast
  then show "fst (DefineFunction E r name callable w) = Panic ''failed to define function''"
    by (cases "defineFunction E r name callable NULL w") (auto simp add: DefineFunction_def)
next
  assume "o_cx (obs w oref) = r \<and> Valid (cxs w r) \<and> NewFunc callable = Ret f \<and>
    \<not> JSAPI_DefineFunction E
        (calls w @ [C_DefineFunction (ptr (cxs w r)) (o_id (obs w oref)) name])"
  then have "fst (defineFunction E (o_cx (obs w oref)) name callable (o_id (obs w oref)) w)
               = Panic ''failed to define function''"
    using defineFunction_refused by blast
  then show "fst (Object_DefineFunction E oref name callable w) = Panic ''failed to define function''"
    by (cases "defineFunction E (o_cx (obs w oref)) name callable (o_id (obs w oref)) w")
      (auto simp add: Object_DefineFunction_def)
next
  assume "Valid (cxs w r) \<and> Kind pt \<noteq> KStruct \<and> Kind pt \<noteq> KPtr"
  then show "fst (DefineObject L E r name (Val pt pd) w)
        = Panic ''proxy object must be a kind of struct or pointer to a struct''"
    by (simp add: DefineObject_def defineObject_not_struct)
next
  assume "o_cx (obs w oref) = r \<and> Valid (cxs w r) \<and> Kind pt \<noteq> KStruct \<and> Kind pt \<noteq> KPtr"
  then show "fst (Object_DefineObject L E oref name (Val pt pd) w)
        = Panic ''proxy object must be a kind of struct or pointer to a struct''"
    by (simp add: Object_DefineObject_def defineObject_not_struct)
next
  assume "Valid (cxs w r) \<and> Kind it \<noteq> KStruct"
  then show "fst (DefineObject L E r name (Val (PtrTo e) (DPtr (Val it pd))) w)
        = Panic ''proxy object must be a kind of struct or pointer to a struct''"
    by (simp add: DefineObject_def defineObject_ptr_not_struct)
next
  assume "o_cx (obs w oref) = r \<and> Valid (cxs w r) \<and> Kind it \<noteq> KStruct"
  then show "fst (Object_DefineObject L E oref name (Val (PtrTo e) (DPtr (Val it pd))) w)
        = Panic ''proxy object must be a kind of struct or pointer to a struct''"
    by (simp add: Object_DefineObject_def defineObject_ptr_not_struct)
next
  assume h: "Valid (cxs w r) \<and>
    (proxy = Val (StructOf fs) pd \<or> proxy = Val (PtrTo e) (DPtr (Val (StructOf fs) pd))) \<and>
    j < length fs \<and>
    \<not> JSAPI_DefineProperty E
        (calls w @ C_DefineObject (ptr (cxs w r)) NULL name #
           map (\<lambda>f. C_DefineProperty (ptr (cxs w r))
                  (JSAPI_DefineObject E (calls w @ [C_DefineObject (ptr (cxs w r)) NULL name]))
                  (fst f))
               (take (Suc j) fs))"
  then show "fst (DefineObject L E r name proxy w) = Panic ''failed to define property''"
    using defineObject_property_refused [of w r proxy fs pd e j E NULL name L]
    by (simp add: DefineObject_def)
next
  assume h: "o_cx (obs w oref) = r \<and> Valid (cxs w r) \<and>
    (proxy = Val (StructOf fs) pd \<or> proxy = Val (PtrTo e) (DPtr (Val (StructOf fs) pd))) \<and>
    j < length fs \<and>
    \<not> JSAPI_DefineProperty E
        (calls w @ C_DefineObject (ptr (cxs w r)) (o_id (obs w oref)) name #
           map (\<lambda>f. C_DefineProperty (ptr (cxs w r))
                  (JSAPI_DefineObject E
                     (calls w @ [C_DefineObject (ptr (cxs w r)) (o_id (obs w oref)) name]))
                  (fst f))
               (take (Suc j) fs))"
  then show "fst (Object_DefineObject L E oref name proxy w) = Panic ''failed to define property''"
    using defineObject_property_refused [of w r proxy fs pd e j E "o_id (obs w oref)" name L]
    by (simp add: Object_DefineObject_def)
next
  assume v: "Valid (cxs w r)"
  from defineObject_nil_proxy [OF v, of L E name NULL]
  show "fst (DefineObject L E r name Zero w) = Ret (heap_next w)"
    and "o_id (obs (snd (DefineObject L E r name Zero w)) (heap_next w))
        = JSAPI_DefineObject E (calls w @ [C_DefineObject (ptr (cxs w r)) NULL name])"
    and "objs (cxs (snd (DefineObject L E r name Zero w)) r)
          (JSAPI_DefineObject E (calls w @ [C_DefineObject (ptr (cxs w r)) NULL name]))
        = Some (heap_next w)"
    by (simp_all add: DefineObject_def)
next
  assume v: "o_cx (obs w oref) = r \<and> Valid (cxs w r)"
  then have "Valid (cxs w r)" and o: "o_cx (obs w oref) = r" by simp_all
  from defineObject_nil_proxy [OF this(1), of L E name "o_id (obs w oref)"] o
  show "fst (Object_DefineObject L E oref name Zero w) = Ret (heap_next w)"
    and "o_id (obs (snd (Object_DefineObject L E oref name Zero w)) (heap_next w))
        = JSAPI_DefineObject E
            (calls w @ [C_DefineObject (ptr (cxs w r)) (o_id (obs w oref)) name])"
    and "objs (cxs (snd (Object_DefineObject L E oref name Zero w)) r)
          (JSAPI_DefineObject E
             (calls w @ [C_DefineObject (ptr (cxs w r)) (o_id (obs w oref)) name]))
        = Some (heap_next w)"
    by (simp_all add: Object_DefineObject_def)
next
  assume h: "Valid (cxs w r) \<and>
    (proxy = Val (StructOf fs) pd \<or> proxy = Val (PtrTo e) (DPtr (Val (StructOf fs) pd))) \<and>
    (\<forall>j<length fs. JSAPI_DefineProperty E
        (calls w @ C_DefineObject (ptr (cxs w r)) NULL name #
           map (\<lambda>f. C_DefineProperty (ptr (cxs w r))
                  (JSAPI_DefineObject E (calls w @ [C_DefineObject (ptr (cxs w r)) NULL name]))
                  (fst f))
               (take (Suc j) fs)))"
  then show "fst (DefineObject L E r name proxy w) = Ret (heap_next w)"
    using defineObject_struct [of w r proxy fs pd e L E name NULL]
    by (simp add: DefineObject_def)
qed

theorem definition_time_errors_witness:
  "NewFunc (num 5) = Panic ''X is not a valid function type'' \<and>
   NewFunc (closure (FuncOf [Prim PInt, PtrTo (Prim PInt)] False []) 15)
     = Panic ''X is not a valid argument type for javascript interop'' \<and>
   \<not> acceptable KPtr \<and>
   DefineFunction E0 20 ''f'' Zero world3 = (Panic ''invalid function type'', world3) \<and>
   Object_DefineFunction E0 21 ''f'' Zero world3 = (Panic ''invalid function type'', world3) \<and>
   fst (DefineFunction E0 20 ''bad'' (closure add_type 10) world3)
     = Panic ''failed to define function'' \<and>
   fst (Object_DefineFunction E0 21 ''bad'' (closure add_type 10) world3)
     = Panic ''failed to define function'' \<and>
   fst (DefineObject L0 E0 20 ''f'' (num 5) world3)
     = Panic ''proxy object must be a kind of struct or pointer to a struct'' \<and>
   fst (Object_DefineObject L0 E0 21 ''f'' (num 5) world3)
     = Panic ''proxy object must be a kind of struct or pointer to a struct'' \<and>
   fst (DefineObject L0 E0 20 ''f'' (Val (PtrTo (Prim PInt)) (DPtr (Val (Prim PInt) (DNum 5)))) world3)
     = Panic ''proxy object must be a kind of struct or pointer to a struct'' \<and>
   fst (DefineObject L0 E0 20 ''n''
          (Val (StructOf [(''Bad'', Prim PInt)]) (DStruct [Val (Prim PInt) (DNum 0)])) world3)
     = Panic ''failed to define property'' \<and>
   fst (Object_DefineObject L0 E0 21 ''n''
          (Val (StructOf [(''Bad'', Prim PInt)]) (DStruct [Val (Prim PInt) (DNum 0)])) world3)
     = Panic ''failed to define property'' \<and>
   JSAPI_DefineObject E0 (calls world3 @ [C_DefineObject 101 NULL ''fail'']) = NULL \<and>
   fst (DefineObject L0 E0 20 ''fail'' Zero world3) = Ret 22 \<and>
   o_id (obs (snd (DefineObject L0 E0 20 ''fail'' Zero world3)) 22) = NULL \<and>
   objs (cxs (snd (DefineObject L0 E0 20 ''fail'' Zero world3)) 20) NULL = Some 22 \<and>
   fst (Object_DefineObject L0 E0 21 ''fail'' Zero world3) = Ret 22 \<and>
   o_id (obs (snd (Object_DefineObject L0 E0 21 ''fail'' Zero world3)) 22) = NULL \<and>
   fst (DefineObject L0 E0 20 ''fail'' person world3) = Ret 22"
proof -
  note a = definition_time_errors [where ty = "Prim PFloat64" and d = "DNum 5" and k = KPtr
      and p = "PtrTo (Prim PInt)" and ps = "[Prim PInt, PtrTo (Prim PInt)]" and variadic = False
      and rs = "[]" and callable = Zero and pv = "Some ''invalid function type''" and E = E0
      and r = 20 and name = "''f''" and w = world3 and oref = 21
      and f = "bound ''[anon]'' add_type 10" and pt = "Prim PFloat64" and pd = "DNum 5"
      and it = "Prim PInt" and e = "Prim PInt" and proxy = "num 5" and fs = "[]" and j = 0
      and L = L0]
  note b = definition_time_errors [where ty = "Prim PFloat64"
      and d = "DFunc 15" and k = KPtr
      and p = "PtrTo (Prim PInt)" and ps = "[Prim PInt, PtrTo (Prim PInt)]" and variadic = False
      and rs = "[]" and callable = "closure add_type 10" and pv = None and E = E0 and r = 20
      and name = "''bad''" and w = world3 and oref = 21 and f = "bound ''[anon]'' add_type 10"
      and pt = "Prim PFloat64" and pd = "DNum 5" and it = "Prim PInt" and e = "Prim PInt"
      and proxy = "num 5" and fs = "[]" and j = 0 and L = L0]
  note c = definition_time_errors [where ty = "Prim PFloat64"
      and d = "DFunc 15" and k = KPtr
      and p = "PtrTo (Prim PInt)" and ps = "[Prim PInt, PtrTo (Prim PInt)]" and variadic = False
      and rs = "[]" and callable = Zero and pv = "Some ''invalid function type''" and E = E0
      and r = 20 and name = "''n''" and w = world3 and oref = 21
      and f = "bound ''[anon]'' add_type 10"
      and pt = "Prim PFloat64" and pd = "DStruct [Val (Prim PInt) (DNum 0)]" and it = "Prim PInt"
      and e = "Prim PInt"
      and proxy = "Val (StructOf [(''Bad'', Prim PInt)]) (DStruct [Val (Prim PInt) (DNum 0)])"
      and fs = "[(''Bad'', Prim PInt)]" and j = 0 and L = L0]
  note g = definition_time_errors [where ty = "Prim PFloat64"
      and d = "DFunc 15" and k = KPtr
      and p = "PtrTo (Prim PInt)" and ps = "[Prim PInt, PtrTo (Prim PInt)]" and variadic = False
      and rs = "[]" and callable = Zero and pv = "Some ''invalid function type''" and E = E0
      and r = 20 and name = "''fail''" and w = world3 and oref = 21
      and f = "bound ''[anon]'' add_type 10"
      and pt = "Prim PFloat64"
      and pd = "DStruct [Val (Prim PString) (DStr ''jeff''), Val (Prim PInt) (DNum 22)]"
      and it = "Prim PInt"
      and e = "StructOf [(''Name'', Prim PString), (''Age'', Prim PInt)]"
      and proxy = person
      and fs = "[(''Name'', Prim PString), (''Age'', Prim PInt)]" and j = 0 and L = L0]
  have e: "\<not> JSAPI_DefineFunction E0 (calls world3 @ [C_DefineFunction 101 NULL ''bad''])"
    "\<not> JSAPI_DefineFunction E0 (calls world3 @ [C_DefineFunction 101 13 ''bad''])"
    "\<not> JSAPI_DefineProperty E0 (calls world3 @ [C_DefineObject 101 NULL ''n'',
        C_DefineProperty 101 (JSAPI_DefineObject E0 (calls world3 @ [C_DefineObject 101 NULL ''n'']))
          ''Bad''])"
    "\<not> JSAPI_DefineProperty E0 (calls world3 @ [C_DefineObject 101 13 ''n'',
        C_DefineProperty 101 (JSAPI_DefineObject E0 (calls world3 @ [C_DefineObject 101 13 ''n'']))
          ''Bad''])"
    by (simp_all add: E0_def)
  have n: "JSAPI_DefineObject E0 (calls world3 @ [C_DefineObject 101 NULL ''fail'']) = NULL"
    "JSAPI_DefineObject E0 (calls world3 @ [C_DefineObject 101 13 ''fail'']) = NULL"
    by (simp_all add: E0_facts)
  have q: "\<forall>j<length [(''Name'', Prim PString), (''Age'', Prim PInt)].
      JSAPI_DefineProperty E0
        (calls world3 @ C_DefineObject 101 NULL ''fail'' #
           map (\<lambda>f. C_DefineProperty 101 NULL (fst f))
               (take (Suc j) [(''Name'', Prim PString), (''Age'', Prim PInt)]))"
    by (auto simp add: less_Suc_eq numeral_2_eq_2 E0_def)
  from a have 1: "NewFunc (num 5) = Panic ''X is not a valid function type''"
    and 2: "\<not> acceptable KPtr"
    and 3: "DefineFunction E0 20 ''f'' Zero world3 = (Panic ''invalid function type'', world3)"
    and 4: "Object_DefineFunction E0 21 ''f'' Zero world3 = (Panic ''invalid function type'', world3)"
    by (simp_all add: num_def)
  from a world3_facts world3_object
  have 5: "fst (DefineObject L0 E0 20 ''f'' (num 5) world3)
     = Panic ''proxy object must be a kind of struct or pointer to a struct''"
    and 6: "fst (DefineObject L0 E0 20 ''f''
         (Val (PtrTo (Prim PInt)) (DPtr (Val (Prim PInt) (DNum 5)))) world3)
     = Panic ''proxy object must be a kind of struct or pointer to a struct''"
    and 7: "fst (Object_DefineObject L0 E0 21 ''f'' (num 5) world3)
     = Panic ''proxy object must be a kind of struct or pointer to a struct''"
    by (simp_all add: num_def)
  from b have 8: "NewFunc (closure (FuncOf [Prim PInt, PtrTo (Prim PInt)] False []) 15)
     = Panic ''X is not a valid argument type for javascript interop''"
    by (simp add: closure_def)
  from b e world3_facts world3_object NewFunc_closure_add
  have 9: "fst (DefineFunction E0 20 ''bad'' (closure add_type 10) world3)
     = Panic ''failed to define function''"
    and 10: "fst (Object_DefineFunction E0 21 ''bad'' (closure add_type 10) world3)
     = Panic ''failed to define function''"
    by simp_all
  from c e world3_facts world3_object
  have 11: "fst (DefineObject L0 E0 20 ''n''
          (Val (StructOf [(''Bad'', Prim PInt)]) (DStruct [Val (Prim PInt) (DNum 0)])) world3)
     = Panic ''failed to define property''"
    and 12: "fst (Object_DefineObject L0 E0 21 ''n''
          (Val (StructOf [(''Bad'', Prim PInt)]) (DStruct [Val (Prim PInt) (DNum 0)])) world3)
     = Panic ''failed to define property''"
    by simp_all
  from g n world3_facts world3_object
  have 13: "fst (DefineObject L0 E0 20 ''fail'' Zero world3) = Ret 22"
    and 14: "o_id (obs (snd (DefineObject L0 E0 20 ''fail'' Zero world3)) 22) = NULL"
    and 15: "objs (cxs (snd (DefineObject L0 E0 20 ''fail'' Zero world3)) 20) NULL = Some 22"
    and 16: "fst (Object_DefineObject L0 E0 21 ''fail'' Zero world3) = Ret 22"
    and 17: "o_id (obs (snd (Object_DefineObject L0 E0 21 ''fail'' Zero world3)) 22) = NULL"
    by simp_all
  have p: "person = Val (PtrTo (StructOf [(''Name'', Prim PString), (''Age'', Prim PInt)]))
     (DPtr (Val (StructOf [(''Name'', Prim PString), (''Age'', Prim PInt)])
        (DStruct [Val (Prim PString) (DStr ''jeff''), Val (Prim PInt) (DNum 22)])))"
    by (simp add: person_def)
  from g n(1) q p world3_facts
  have 18: "fst (DefineObject L0 E0 20 ''fail'' person world3) = Ret 22"
    by simp
  from 1 2 3 4 5 6 7 8 9 10 11 12 13 14 15 16 17 18 n(1) show ?thesis by simp
qed

section \<open>Destroy\<close>

lemma Destroy_invalid: "\<not> Valid (cxs w r) \<Longrightarrow> Destroy r w = (Ret (), w)"
  by (simp add: Destroy_def)

lemma Destroy_makes_invalid: "\<not> Valid (cxs (snd (Destroy r w)) r)"
  by (simp add: Destroy_def Context_do_def api_do_def Let_def)

lemma Destroy_contexts: "contexts (snd (Destroy r w)) = contexts w"
  by (simp add: Destroy_def Context_do_def api_do_def Let_def)

text \<open>
  Claim C10. \<^verbatim>\<open>Destroy\<close> is idempotent: on a Context whose \<^verbatim>\<open>Valid\<close> flag is false it
  returns without a panic and leaves the whole state as it was. The state holds the flag,
  the engine pointer and the registries of the Context, the calls the engine has received
  and the count of the units of work given to the executor, so none of them changes. A
  second \<^verbatim>\<open>Destroy\<close> after a first one is such a call, whatever the state before the first.
\<close>

theorem Destroy_idempotent:
  "(\<not> Valid (cxs w r) \<longrightarrow> Destroy r w = (Ret (), w)) \<and>
   Destroy r (snd (Destroy r w)) = (Ret (), snd (Destroy r w))"
  using Destroy_invalid Destroy_makes_invalid by blast

theorem Destroy_idempotent_witness:
  "\<not> Valid (cxs world4 20) \<and> Destroy 20 world4 = (Ret (), world4) \<and>
   Valid (cxs world3 20) \<and> Destroy 20 (snd (Destroy 20 world3)) = (Ret (), snd (Destroy 20 world3))"
  using Destroy_idempotent [of world4 20] Destroy_idempotent [of world3 20]
  by (simp add: world4_facts world3_facts)

text \<open>
  Claim C1. After \<^verbatim>\<open>Destroy\<close> on a valid Context the claim wants every later callback
  that carries the Context's handle to answer \<^verbatim>\<open>attempt to use context after destroyed\<close>.
  \<^verbatim>\<open>Destroy\<close> tears the engine instance down, clears the flag and the pointer, and leaves
  the global \<^verbatim>\<open>contexts\<close> as it was: nothing in the file deletes from it. In the sample
  run the handle 101 is still registered after \<^verbatim>\<open>Destroy\<close>, and the three callbacks
  dispatch into the destroyed Context: the bound function runs, the property is read, the
  property is written. Lemma \<open>Destroy_contexts\<close> above says the same of every state:
  \<^verbatim>\<open>Destroy\<close> returns the registry it was given.
\<close>

theorem Destroy_keeps_context_registered:
  "Valid (cxs world3 20) \<and> contexts world3 101 = Some 20 \<and>
   fst (Destroy 20 world3) = Ret () \<and>
   \<not> Valid (cxs world4 20) \<and> ptr (cxs world4 20) = NULL \<and>
   calls world4 = calls world3 @ [C_DestroyContext 101] \<and>
   contexts world4 101 = Some 20 \<and>
   callback L0 H0 E0 101 5 ''add'' ''[1,2]'' world4 = (Ret (1, ''3''), world4) \<and>
   getprop L0 101 13 ''Age'' world4 = (Ret (1, ''22''), world4) \<and>
   fst (setprop L0 101 13 ''Age'' ''25'' world4) = Ret (1, ''25'')"
  by (simp add: world3_facts world4_facts world4_callback getprop_def setprop_def answer_def
      prop_get_age prop_set_age)

section \<open>Operations on a destroyed Context\<close>

lemma Context_do_invalid:
  "\<not> Valid (cxs w r) \<Longrightarrow> Context_do r work w = (Panic ''attempt to do a destroyed Context'', w)"
  by (simp add: Context_do_def)

lemma Context_do_valid:
  "Valid (cxs w r) \<Longrightarrow> Context_do r work w = work (w\<lparr>jobs := Suc (jobs w)\<rparr>)"
  by (simp add: Context_do_def api_do_def)

lemma defineObject_invalid:
  assumes "\<not> Valid (cxs w r)"
  shows "fst (defineObject L E r name proxy i w) = Panic ''attempt to do a destroyed Context''"
    and "calls (snd (defineObject L E r name proxy i w)) = calls w"
    and "jobs (snd (defineObject L E r name proxy i w)) = jobs w"
    and "cxs (snd (defineObject L E r name proxy i w)) = cxs w"
    and "contexts (snd (defineObject L E r name proxy i w)) = contexts w"
  using assms by (simp_all add: defineObject_def Let_def Context_do_def)

text \<open>
  Claim C9, as amended. On a Context whose \<^verbatim>\<open>Valid\<close> flag is false, \<^verbatim>\<open>do\<close> panics
  with \<^verbatim>\<open>attempt to do a destroyed Context\<close> and runs nothing, and so do \<^verbatim>\<open>Exec\<close>,
  \<^verbatim>\<open>Eval\<close> and \<^verbatim>\<open>DefineObject\<close>: the engine's calls and the executor's count stay as
  they were. \<^verbatim>\<open>ExecFrom\<close> and \<^verbatim>\<open>ExecFile\<close> do the same once their input is read; a
  read or open error is returned as it is, without a panic. \<^verbatim>\<open>DefineFunction\<close> does the
  same for a callable that \<^verbatim>\<open>NewFunc\<close> accepts; for any other callable the panic of
  \<^verbatim>\<open>NewFunc\<close> comes first. While the Context is valid \<^verbatim>\<open>do\<close> hands the work to the
  executor: neither fatal branch is taken.
\<close>

theorem destroyed_Context_is_fatal:
  "(\<not> Valid (cxs w r) \<longrightarrow>
      Context_do r work w = (Panic ''attempt to do a destroyed Context'', w) \<and>
      Exec L H E r source w = (Panic ''attempt to do a destroyed Context'', w) \<and>
      Eval L H E r source w = (Panic ''attempt to do a destroyed Context'', w) \<and>
      ExecFrom L H E r rd w =
        (case rd of
           Inr b \<Rightarrow> (Panic ''attempt to do a destroyed Context'', w)
         | Inl err \<Rightarrow> (Ret (Some err), w)) \<and>
      ExecFile L H E fs r filename w =
        (case fs filename of
           Inr (Inr b) \<Rightarrow> (Panic ''attempt to do a destroyed Context'', w)
         | Inr (Inl err) \<Rightarrow> (Ret (Some err), w)
         | Inl err \<Rightarrow> (Ret (Some err), w)) \<and>
      fst (DefineObject L E r name proxy w) = Panic ''attempt to do a destroyed Context'' \<and>
      calls (snd (DefineObject L E r name proxy w)) = calls w \<and>
      jobs (snd (DefineObject L E r name proxy w)) = jobs w \<and>
      DefineFunction E r name callable w =
        (case NewFunc callable of
           Ret f \<Rightarrow> (Panic ''attempt to do a destroyed Context'', w)
         | Raise pv \<Rightarrow> (Raise pv, w))) \<and>
   (Valid (cxs w r) \<longrightarrow> Context_do r work w = work (w\<lparr>jobs := Suc (jobs w)\<rparr>))"
  by (auto simp add: Context_do_invalid Context_do_valid Exec_def Eval_def ExecFrom_def ExecFile_def
      DefineObject_def defineObject_invalid DefineFunction_def defineFunction_def split: res.splits sum.splits)

text \<open>
  The claim as stated, that each of the six operations panics with the destroyed-Context
  error on an invalid Context, fails on the destroyed Context of the sample run:
  \<^verbatim>\<open>ExecFrom\<close> on a reader that fails returns the reader's error, and \<^verbatim>\<open>DefineFunction\<close>
  of a nil callable panics with \<^verbatim>\<open>invalid function type\<close>.
\<close>

theorem destroyed_Context_counterexample:
  "\<not> Valid (cxs world4 20) \<and>
   ExecFrom L0 H0 E0 20 (Inl (LibErr ''unexpected EOF'')) world4
     = (Ret (Some (LibErr ''unexpected EOF'')), world4) \<and>
   DefineFunction E0 20 ''f'' Zero world4 = (Panic ''invalid function type'', world4)"
  by (simp add: world4_facts ExecFrom_def DefineFunction_def defineFunction_def NewFunc_def)

theorem destroyed_Context_is_fatal_witness:
  "\<not> Valid (cxs world4 20) \<and> Valid (cxs world3 20) \<and>
   Exec L0 H0 E0 20 ''1+1'' world4 = (Panic ''attempt to do a destroyed Context'', world4) \<and>
   Eval L0 H0 E0 20 ''1+1'' world4 = (Panic ''attempt to do a destroyed Context'', world4) \<and>
   ExecFrom L0 H0 E0 20 (Inr ''1+1'') world4 = (Panic ''attempt to do a destroyed Context'', world4) \<and>
   ExecFile L0 H0 E0 (\<lambda>n. Inr (Inr ''1+1'')) 20 ''a.js'' world4
     = (Panic ''attempt to do a destroyed Context'', world4) \<and>
   fst (DefineObject L0 E0 20 ''p'' Zero world4) = Panic ''attempt to do a destroyed Context'' \<and>
   calls (snd (DefineObject L0 E0 20 ''p'' Zero world4)) = calls world4 \<and>
   DefineFunction E0 20 ''add'' (closure add_type 10) world4
     = (Panic ''attempt to do a destroyed Context'', world4) \<and>
   Context_do 20 (\<lambda>w. (Ret (), w)) world3 = (Ret (), world3\<lparr>jobs := 4\<rparr>)"
  using destroyed_Context_is_fatal [where w = world4 and r = 20 and L = L0 and H = H0 and E = E0
      and source = "''1+1''" and filename = "''a.js''" and name = "''p''" and proxy = Zero
      and work = "\<lambda>w. (Ret (), w)" and rd = "Inr ''1+1''"
      and fs = "\<lambda>n. Inr (Inr ''1+1'')" and callable = Zero]
    destroyed_Context_is_fatal [where w = world4 and r = 20 and L = L0 and H = H0 and E = E0
      and source = "''1+1''" and filename = "''a.js''" and name = "''add''" and proxy = Zero
      and work = "\<lambda>w. (Ret (), w)" and rd = "Inr ''1+1''"
      and fs = "\<lambda>n. Inr (Inr ''1+1'')" and callable = "closure add_type 10"]
    destroyed_Context_is_fatal [where w = world3 and r = 20 and L = L0 and H = H0 and E = E0
      and source = "''1+1''" and filename = "''a.js''" and name = "''p''" and proxy = Zero
      and work = "\<lambda>w. (Ret (), w)" and rd = "Inr ''1+1''"
      and fs = "\<lambda>n. Inr (Inr ''1+1'')" and callable = Zero]
  by (simp add: world4_facts world3_facts NewFunc_closure_add)

section \<open>The error sink and failing evaluations\<close>

lemma getError_exact:
  "errs_lookup cx filename = Some e \<Longrightarrow>
   fst (getError filename cx) = Some e \<and> errs_lookup (snd (getError filename cx)) filename = None"
  by (auto simp add: getError_def errs_lookup_def errs_delete_def split: option.splits)

lemma getError_fatal:
  "errs_lookup cx filename = None \<Longrightarrow> errs_lookup cx ''__fatal__'' = Some e \<Longrightarrow>
   fst (getError filename cx) = Some e \<and>
   errs_lookup (snd (getError filename cx)) ''__fatal__'' = Some e"
  by (auto simp add: getError_def errs_lookup_def errs_delete_def split: option.splits)

lemma getError_none:
  "errs_lookup cx filename = None \<Longrightarrow> errs_lookup cx ''__fatal__'' = None \<Longrightarrow>
   getError filename cx = (None, cx)"
  by (simp add: getError_def)

lemma Exec_never_generic:
  "fst (Exec L H E r source w)
     \<noteq> Ret (Some (Errorf ''Failed to exec javascript and no error report found''))"
  by (simp add: Exec_def Context_do_def api_do_def Let_def split: prod.splits res.splits)

lemma Eval_never_generic:
  "JSAPI_EvalJSON E (calls w @ [C_EvalJSON (ptr (cxs w r)) source ''eval'']) = (evs, None) \<Longrightarrow>
   fst (Eval L H E r source w)
     \<noteq> Ret (x, Some (Errorf ''Failed to eval javascript and no error report found''))"
  by (auto simp add: Eval_def Context_do_def api_do_def Let_def
      split: prod.splits res.splits option.splits sum.splits)

text \<open>
  Claim C2. A failing \<^verbatim>\<open>Exec\<close> or \<^verbatim>\<open>Eval\<close> is to return the report stored under
  \<^verbatim>\<open>eval\<close>, else the one stored under \<^verbatim>\<open>__fatal__\<close>, remove the report it returns,
  and return a generic \<^verbatim>\<open>no error report found\<close> error when there is neither. On the
  sample run the code does the first and misses the other two. With no report in the
  sink (source \<^verbatim>\<open>lost\<close>) the error returned is a nil \<^verbatim>\<open>*ErrorReport\<close> inside a non-nil
  \<^verbatim>\<open>error\<close>, whose \<^verbatim>\<open>Error\<close> method panics, and not the generic error. With a report
  under \<^verbatim>\<open>__fatal__\<close> only (source \<^verbatim>\<open>fatal\<close>) that report is returned and is still in
  the sink afterwards: the second \<^verbatim>\<open>delete\<close> of \<^verbatim>\<open>getError\<close> names \<^verbatim>\<open>filename\<close>
  again. With a report under \<^verbatim>\<open>eval\<close> (source \<^verbatim>\<open>throw 1\<close>) it is returned and removed.
  The lemmas above say it of every state: \<^verbatim>\<open>Exec\<close> never returns the generic error,
  nor does a failing \<^verbatim>\<open>Eval\<close>, and the fallback of \<^verbatim>\<open>getError\<close> keeps the report
  under \<^verbatim>\<open>__fatal__\<close>.
\<close>

theorem failing_Exec_on_sample:
  "fst (Exec L0 H0 E0 20 ''lost'' world3) = Ret (Some (ReportPtr None)) \<and>
   fst (Eval L0 H0 E0 20 ''lost'' world3) = Ret (None, Some (ReportPtr None)) \<and>
   Error (ReportPtr None)
     = Panic ''runtime error: invalid memory address or nil pointer dereference'' \<and>
   fst (Exec L0 H0 E0 20 ''fatal'' world3)
     = Ret (Some (ReportPtr (Some
         \<lparr>Filename = ''__fatal__'', Line = 0, Message = ''out of memory''\<rparr>))) \<and>
   errs_lookup (cxs (snd (Exec L0 H0 E0 20 ''fatal'' world3)) 20) ''__fatal__''
     = Some \<lparr>Filename = ''__fatal__'', Line = 0, Message = ''out of memory''\<rparr> \<and>
   fst (Exec L0 H0 E0 20 ''throw 1'' world3)
     = Ret (Some (ReportPtr (Some
         \<lparr>Filename = ''eval'', Line = 1, Message = ''uncaught exception: 1''\<rparr>))) \<and>
   errs_lookup (cxs (snd (Exec L0 H0 E0 20 ''throw 1'' world3)) 20) ''eval'' = None"
  by (simp add: Exec_def Eval_def Context_do_def api_do_def Let_def world3_facts E0_def reporter_def
      setError_def getError_def errs_lookup_def errs_delete_def Error_def)

end
